theory Spec2Isabelle
  imports Complex_Main "HOL-Library.Word" "HOL-Library.Sublist"
begin

section \<open>The ChatMix daemon: data model\<close>

text \<open>
  The repository holds two near-identical daemons, \<^verbatim>\<open>Arctis_7_Plus_ChatMix.py\<close> and
  \<^verbatim>\<open>AllSound7P_ChatMix.py\<close>. Each locates a USB headset, provisions two virtual
  sinks through command-line tools of the audio service, and then polls the headset's
  ChatMix dial. Their functions carry the same names; the definitions of the second
  file are suffixed \<open>_allsound\<close>.

  Everything the program does to the outside world is recorded as an event, in order:
  the commands handed to \<^verbatim>\<open>os.popen\<close> and \<^verbatim>\<open>os.system\<close>, the calls of
  \<^verbatim>\<open>time.sleep\<close>, the detaching of the kernel driver, and the log records of level
  FATAL (the records of lower levels are not part of the trace).
\<close>

type_synonym byte = "8 word"

datatype event =
    Popen string                \<comment> \<open>\<^verbatim>\<open>os.popen(cmd).read()\<close>\<close>
  | System string               \<comment> \<open>\<^verbatim>\<open>os.system(cmd)\<close>, the command line as written\<close>
  | CreateNode string string    \<comment> \<open>\<^verbatim>\<open>pw-cli create-node adapter {...}\<close>: node.name, node.description\<close>
  | PwLink string string        \<comment> \<open>\<^verbatim>\<open>pw-link "src" "dst" 1>/dev/null\<close>\<close>
  | SetVolume string rat        \<comment> \<open>\<^verbatim>\<open>wpctl set-volume {id} {level}\<close>\<close>
  | Sleep rat                   \<comment> \<open>\<^verbatim>\<open>time.sleep(seconds)\<close>\<close>
  | DetachKernelDriver nat      \<comment> \<open>\<^verbatim>\<open>dev.detach_kernel_driver(n)\<close>\<close>
  | LogFatal string             \<comment> \<open>\<^verbatim>\<open>log.fatal(msg)\<close>\<close>

text \<open>
  The level of a \<open>SetVolume\<close> event is the number written into the command line.
  Python computes it as \<^verbatim>\<open>raw / 100.0\<close> and prints the float with the shortest decimal
  that reads back as the same float; for the quotient of a byte by 100 that is the
  decimal of the exact quotient, which the model keeps as a rational.
\<close>

datatype outcome =
    Exited int          \<comment> \<open>\<^verbatim>\<open>sys.exit(code)\<close> reached the top level\<close>
  | Crashed string      \<comment> \<open>an uncaught exception of that type (interpreter status 1)\<close>
  | Returned            \<comment> \<open>the main block ran to its end (interpreter status 0)\<close>
  | Running             \<comment> \<open>the given input is used up and the loop waits for more\<close>

fun exit_status :: "outcome \<Rightarrow> int option" where
  "exit_status (Exited c) = Some c"
| "exit_status (Crashed e) = Some 1"
| "exit_status Returned = Some 0"
| "exit_status Running = None"

text \<open>
  The regular expressions of the source are matched by Python's \<^verbatim>\<open>re\<close> library, which
  is a parameter of the model: \<open>re_search p text\<close> is \<open>None\<close> when \<^verbatim>\<open>re.search\<close>
  finds no match and \<open>Some g\<close> when it does, \<open>g\<close> being \<^verbatim>\<open>group(1)\<close> (for the one
  pattern without a group only the presence of a match is used).
\<close>

datatype pattern =
    SinkIdByName string   \<comment> \<open>\<^verbatim>\<open>rf'\s*(\d+)\.\s+{re.escape(name)}'\<close>\<close>
  | ArctisGameId          \<comment> \<open>\<^verbatim>\<open>r'\s*(\d+)\.\s+Arctis.*Game'\<close>\<close>
  | ArctisChatId          \<comment> \<open>\<^verbatim>\<open>r'\s*(\d+)\.\s+Arctis.*Chat'\<close>\<close>
  | ChatMixGameId         \<comment> \<open>\<^verbatim>\<open>r'\s*(\d+)\.\s+ChatMix.*Game'\<close>\<close>
  | ChatMixChatId         \<comment> \<open>\<^verbatim>\<open>r'\s*(\d+)\.\s+ChatMix.*Chat'\<close>\<close>
  | ArctisSeven           \<comment> \<open>\<^verbatim>\<open>'.*[aA]rctis.*7'\<close>\<close>
  | NodeNameQuoted        \<comment> \<open>\<^verbatim>\<open>r'node\.name\s*=\s*"([^"]+)"'\<close>\<close>

text \<open>What one blocking read of the dial's endpoint can do.\<close>

datatype usb_read =
    Report "byte list"    \<comment> \<open>the bytes read\<close>
  | USBTimeoutError       \<comment> \<open>no report within the window\<close>
  | USBError              \<comment> \<open>any other transport error\<close>
  | Sigterm               \<comment> \<open>SIGTERM arrives while the read blocks; the handler runs\<close>

text \<open>The attributes of the service object that provisioning sets and the rest reads.\<close>

record self =
  system_default_sink :: "string option"     \<comment> \<open>\<open>None\<close>: attribute not set yet\<close>
  system_default_sink_id :: "string option"  \<comment> \<open>\<open>None\<close>: attribute not set, or set to \<^verbatim>\<open>None\<close>\<close>
  arctis_game_id :: "string option"
  arctis_chat_id :: "string option"

record self_allsound =
  system_default_sink_allsound :: "string option"
  chatmix_game_id :: "string option"
  chatmix_chat_id :: "string option"

text \<open>Python's truth value of an attribute that holds \<^verbatim>\<open>None\<close> or a string.\<close>

fun truthy :: "string option \<Rightarrow> bool" where
  "truthy None = False"
| "truthy (Some s) = (s \<noteq> [])"

section \<open>Teardown: \<^verbatim>\<open>die_gracefully\<close>\<close>

text \<open>
  \<^verbatim>\<open>die_gracefully(self, sink_creation_fail=False, trigger=None)\<close> of
  \<^verbatim>\<open>Arctis_7_Plus_ChatMix.py\<close>. It always ends in \<^verbatim>\<open>sys.exit\<close>; the result is the
  events and the exit code. The arguments are the text that \<^verbatim>\<open>wpctl status\<close>
  prints when teardown asks, and the regular-expression search.
\<close>

definition die_gracefully ::
  "(pattern \<Rightarrow> string \<Rightarrow> string option) \<Rightarrow> string \<Rightarrow> self \<Rightarrow> bool \<Rightarrow> string option
     \<Rightarrow> event list \<times> int" where
  "die_gracefully re_search wpctl_status s sink_creation_fail trigger =
     ((if truthy (system_default_sink_id s)
       then [System (''wpctl set-default '' @ the (system_default_sink_id s))]
       else if system_default_sink s \<noteq> None \<and> system_default_sink s \<noteq> Some ''auto''
       then Popen ''wpctl status'' #
            (case re_search (SinkIdByName (the (system_default_sink s))) wpctl_status of
               Some i \<Rightarrow> [System (''wpctl set-default '' @ i)]
             | None \<Rightarrow> [])
       else []) @
      (if sink_creation_fail = False
       then [System ''pw-cli destroy Arctis_Game 1>/dev/null'',
             System ''pw-cli destroy Arctis_Chat 1>/dev/null'']
       else []) @
      (case trigger of
         Some t \<Rightarrow> [LogFatal (''Failure reason: '' @ t)]
       | None \<Rightarrow> []),
      (case trigger of Some t \<Rightarrow> 1 | None \<Rightarrow> 0))"

text \<open>
  \<^verbatim>\<open>die_gracefully\<close> of \<^verbatim>\<open>AllSound7P_ChatMix.py\<close>: the restoring of the default sink
  is commented out there, so it reads no attribute at all.
\<close>

definition die_gracefully_allsound :: "bool \<Rightarrow> string option \<Rightarrow> event list \<times> int" where
  "die_gracefully_allsound sink_creation_fail trigger =
     ((if sink_creation_fail = False
       then [System ''pw-cli destroy ChatMix_Game 1>/dev/null'',
             System ''pw-cli destroy ChatMix_Chat 1>/dev/null'']
       else []) @
      (case trigger of
         Some t \<Rightarrow> [LogFatal (''Failure reason: '' @ t)]
       | None \<Rightarrow> []),
      (case trigger of Some t \<Rightarrow> 1 | None \<Rightarrow> 0))"

section \<open>The polling loop: \<^verbatim>\<open>start_modulator_signal\<close>\<close>

text \<open>
  The two \<^verbatim>\<open>os.system\<close> calls of one iteration: a sink whose identifier is
  \<^verbatim>\<open>None\<close> (or empty) is skipped.
\<close>

definition set_volumes :: "string option \<Rightarrow> string option \<Rightarrow> byte \<Rightarrow> byte \<Rightarrow> event list" where
  "set_volumes game_id chat_id game_val chat_val =
     (let default_device_volume = rat_of_nat (unat game_val) / 100;
          virtual_device_volume = rat_of_nat (unat chat_val) / 100
      in (if truthy game_id then [SetVolume (the game_id) default_device_volume] else []) @
         (if truthy chat_id then [SetVolume (the chat_id) virtual_device_volume] else []))"

text \<open>
  The \<^verbatim>\<open>while True\<close> loop of \<^verbatim>\<open>Arctis_7_Plus_ChatMix.py\<close>, run on the reads that the
  endpoint delivers. \<open>prev\<close> is the pair \<^verbatim>\<open>(last_game_vol, last_chat_vol)\<close> of the
  loop's two variables. The first component of the result lists the events of each
  iteration, one entry per iteration run, and says how the loop ended; the second is
  the pair of the two variables as the loop leaves them, when it ends or when the given
  reads are used up. \<^verbatim>\<open>read_input[1]\<close> and \<^verbatim>\<open>read_input[2]\<close> raise IndexError on a
  report of fewer than three bytes, which no \<^verbatim>\<open>except\<close> clause of the loop catches.
\<close>

fun modulator_while ::
  "event list \<times> int \<Rightarrow> self \<Rightarrow> byte option \<times> byte option \<Rightarrow> usb_read list
     \<Rightarrow> (event list list \<times> outcome) \<times> (byte option \<times> byte option)" where
  "modulator_while handler s prev [] = (([], Running), prev)"
| "modulator_while handler s prev (Report read_input # rs) =
     (if length read_input < 3 then (([[]], Crashed ''IndexError''), prev)
      else
        let game_val = read_input ! 1; chat_val = read_input ! 2
        in if Some game_val \<noteq> fst prev \<or> Some chat_val \<noteq> snd prev
           then
             let ((steps, out), vars) =
                   modulator_while handler s (Some game_val, Some chat_val) rs
             in ((set_volumes (arctis_game_id s) (arctis_chat_id s) game_val chat_val # steps,
                  out), vars)
           else
             let ((steps, out), vars) = modulator_while handler s prev rs
             in (([] # steps, out), vars))"
| "modulator_while handler s prev (USBTimeoutError # rs) =
     (let ((steps, out), vars) = modulator_while handler s prev rs
      in (([] # steps, out), vars))"
| "modulator_while handler s prev (USBError # rs) =
     (([[LogFatal ''USB input/output error - likely disconnect'']], Returned), prev)"
| "modulator_while handler s prev (Sigterm # rs) =
     (([fst handler], Exited (snd handler)), prev)"

text \<open>What the loop does to the outside: its events and the way it ended.\<close>

definition modulator_loop ::
  "event list \<times> int \<Rightarrow> self \<Rightarrow> byte option \<times> byte option \<Rightarrow> usb_read list
     \<Rightarrow> event list list \<times> outcome" where
  "modulator_loop handler s prev reads = fst (modulator_while handler s prev reads)"

text \<open>
  \<^verbatim>\<open>start_modulator_signal\<close>: the loop from \<^verbatim>\<open>last_game_vol = last_chat_vol = None\<close>.
  The handler of SIGTERM is \<^verbatim>\<open>__handle_sigterm\<close>, which calls
  \<^verbatim>\<open>self.die_gracefully()\<close>; the \<^verbatim>\<open>SystemExit\<close> it raises is caught by neither
  \<^verbatim>\<open>except\<close> clause of the loop. After \<^verbatim>\<open>break\<close> the function returns.
\<close>

definition start_modulator_signal ::
  "(pattern \<Rightarrow> string \<Rightarrow> string option) \<Rightarrow> string \<Rightarrow> self \<Rightarrow> usb_read list
     \<Rightarrow> event list \<times> outcome" where
  "start_modulator_signal re_search wpctl_status s reads =
     (let (steps, out) =
        modulator_loop (die_gracefully re_search wpctl_status s False None) s (None, None) reads
      in (concat steps, out))"

text \<open>
  The loop of \<^verbatim>\<open>AllSound7P_ChatMix.py\<close>: no memory of the last values, every report
  read is applied.
\<close>

fun modulator_loop_allsound ::
  "event list \<times> int \<Rightarrow> self_allsound \<Rightarrow> usb_read list \<Rightarrow> event list list \<times> outcome" where
  "modulator_loop_allsound handler s [] = ([], Running)"
| "modulator_loop_allsound handler s (Report read_input # rs) =
     (if length read_input < 3 then ([[]], Crashed ''IndexError'')
      else
        let (steps, out) = modulator_loop_allsound handler s rs
        in (set_volumes (chatmix_game_id s) (chatmix_chat_id s) (read_input ! 1) (read_input ! 2)
              # steps, out))"
| "modulator_loop_allsound handler s (USBTimeoutError # rs) =
     (let (steps, out) = modulator_loop_allsound handler s rs in ([] # steps, out))"
| "modulator_loop_allsound handler s (USBError # rs) =
     ([[LogFatal ''USB input/output error - likely disconnect'']], Returned)"
| "modulator_loop_allsound handler s (Sigterm # rs) =
     ([fst handler], Exited (snd handler))"

definition start_modulator_signal_allsound ::
  "self_allsound \<Rightarrow> usb_read list \<Rightarrow> event list \<times> outcome" where
  "start_modulator_signal_allsound s reads =
     (let (steps, out) =
        modulator_loop_allsound (die_gracefully_allsound False None) s reads
      in (concat steps, out))"

section \<open>Locating the headset: the first half of \<^verbatim>\<open>__init__\<close>\<close>

text \<open>
  The USB library \<^verbatim>\<open>usb.core\<close> is not part of the repository. Its devices are
  modelled by the descriptor fields the program reads, and \<^verbatim>\<open>usb.core.find\<close> by its
  documented behaviour: the first device of the enumeration with the given vendor and
  product identity, \<^verbatim>\<open>None\<close> when there is none.
\<close>

record endpoint =
  bEndpointAddress :: nat
  wMaxPacketSize :: nat

record usb_interface =
  bInterfaceNumber :: nat
  endpoints :: "endpoint list"

record usb_device =
  idVendor :: nat
  idProduct :: nat
  configurations :: "usb_interface list list"  \<comment> \<open>the interfaces of each configuration\<close>
  kernel_driver_active :: "nat list"           \<comment> \<open>interface numbers a kernel driver holds\<close>

record usb_handle =
  dev :: usb_device
  interface_num :: nat
  addr :: nat

definition usb_core_find :: "usb_device list \<Rightarrow> nat \<Rightarrow> nat \<Rightarrow> usb_device option" where
  "usb_core_find devices vendor product =
     List.find (\<lambda>d. idVendor d = vendor \<and> idProduct d = product) devices"

text \<open>
  \<^verbatim>\<open>usb.core.find(idVendor=0x1038, idProduct=0x220e) or
  usb.core.find(idVendor=0x1038, idProduct=0x227a)\<close>: a device object is true, \<^verbatim>\<open>None\<close>
  is false, so the second search runs only when the first finds nothing.
\<close>

definition identify_device :: "usb_device list \<Rightarrow> usb_device option" where
  "identify_device devices =
     (case usb_core_find devices 0x1038 0x220e of
        Some d \<Rightarrow> Some d
      | None \<Rightarrow> usb_core_find devices 0x1038 0x227a)"

text \<open>
  \<^verbatim>\<open>self.dev[0].interfaces()[8]\<close> and \<^verbatim>\<open>self.interface.endpoints()[0]\<close>: every way
  this can fail (\<^verbatim>\<open>self.dev\<close> is \<^verbatim>\<open>None\<close>, no configuration, fewer than nine
  interfaces, no endpoint) raises inside the \<^verbatim>\<open>try\<close> block.
\<close>

definition select_endpoint :: "usb_device option \<Rightarrow> (usb_interface \<times> endpoint) option" where
  "select_endpoint d =
     (case d of
        None \<Rightarrow> None
      | Some dv \<Rightarrow>
          (case configurations dv of
             [] \<Rightarrow> None
           | cfg # _ \<Rightarrow>
               if length cfg \<le> 8 then None
               else (case endpoints (cfg ! 8) of
                       [] \<Rightarrow> None
                     | ep # _ \<Rightarrow> Some (cfg ! 8, ep))))"

text \<open>
  The part of \<^verbatim>\<open>__init__\<close> before \<^verbatim>\<open>_init_VAC\<close>, the same text in both files.
  \<open>die\<close> is the file's \<^verbatim>\<open>die_gracefully\<close> on the object as it is then (no attribute
  of provisioning set). \<open>find_raises\<close> says that \<^verbatim>\<open>usb.core.find\<close> raised, the only
  way into the first \<^verbatim>\<open>except\<close> block. The second \<^verbatim>\<open>except\<close> block calls
  \<^verbatim>\<open>die_gracefully(exc=True, trigger=...)\<close>; the function has no parameter \<^verbatim>\<open>exc\<close>,
  so the call itself raises TypeError, which nothing catches.
\<close>

definition init_usb ::
  "(bool \<Rightarrow> string option \<Rightarrow> event list \<times> int) \<Rightarrow> bool \<Rightarrow> usb_device list
     \<Rightarrow> event list \<times> (outcome + usb_handle)" where
  "init_usb die find_raises devices =
     (if find_raises
      then (fst (die False (Some ''Couldn't find arctis7 model'')),
            Inl (Exited (snd (die False (Some ''Couldn't find arctis7 model'')))))
      else
        (case select_endpoint (identify_device devices) of
           None \<Rightarrow> ([], Inl (Crashed ''TypeError''))
         | Some (interface, endpoint) \<Rightarrow>
             ((if bInterfaceNumber interface \<in> set (kernel_driver_active (the (identify_device devices)))
               then [DetachKernelDriver (bInterfaceNumber interface)] else []),
              Inr \<lparr>dev = the (identify_device devices),
                   interface_num = bInterfaceNumber interface,
                   addr = bEndpointAddress endpoint\<rparr>)))"

section \<open>Waiting for the audio service: \<^verbatim>\<open>wait_for_pipewire\<close>\<close>

text \<open>
  The texts the audio tools print are modelled as lists of 8-bit characters; the
  helpers below are Python's \<^verbatim>\<open>str.lower\<close>, \<^verbatim>\<open>str.strip\<close> and \<^verbatim>\<open>str.split\<close> on
  ASCII text.
\<close>

definition is_space :: "char \<Rightarrow> bool" where
  "is_space c = (of_char c \<in> {9, 10, 11, 12, 13, 28, 29, 30, 31, 32 :: nat})"

definition lower_char :: "char \<Rightarrow> char" where
  "lower_char c =
     (if (65::nat) \<le> of_char c \<and> of_char c \<le> (90::nat)
      then char_of (of_char c + (32::nat)) else c)"

definition py_lower :: "string \<Rightarrow> string" where
  "py_lower s = map lower_char s"

definition py_strip :: "string \<Rightarrow> string" where
  "py_strip s = rev (dropWhile is_space (rev (dropWhile is_space s)))"

fun py_split :: "char \<Rightarrow> string \<Rightarrow> string list" where
  "py_split sep [] = [[]]"
| "py_split sep (c # cs) =
     (if c = sep then [] # py_split sep cs
      else (case py_split sep cs of
              [] \<Rightarrow> [[c]]
            | w # ws \<Rightarrow> (c # w) # ws))"

text \<open>
  The test of one attempt:
  \<^verbatim>\<open>result and not "can't connect" in result.lower() and result.strip().startswith('[')\<close>.
\<close>

definition pipewire_answers :: "string \<Rightarrow> bool" where
  "pipewire_answers result =
     (result \<noteq> [] \<and> \<not> sublist ''can't connect'' (py_lower result)
      \<and> prefix ''['' (py_strip result))"

text \<open>
  What one \<^verbatim>\<open>os.popen("pw-dump 2>&1").read()\<close> of the wait can do: return text,
  raise, or be interrupted by SIGTERM, whose handler runs \<^verbatim>\<open>die_gracefully\<close> and
  raises \<^verbatim>\<open>SystemExit\<close> inside the \<^verbatim>\<open>try\<close> block. The \<^verbatim>\<open>except:\<close> clause there
  names no exception type, so it catches every exception, \<^verbatim>\<open>SystemExit\<close> included.
\<close>

datatype probe = Output string | ProbeRaises | ProbeSigterm

text \<open>
  The \<^verbatim>\<open>for attempt in range(max_attempts)\<close> loop, on the list of attempt numbers
  still to run. \<open>handler\<close> is the events of the SIGTERM handler.
\<close>

fun wait_attempts ::
  "event list \<Rightarrow> (nat \<Rightarrow> probe) \<Rightarrow> rat \<Rightarrow> nat list \<Rightarrow> event list \<times> bool" where
  "wait_attempts handler probes delay [] = ([], False)"
| "wait_attempts handler probes delay (attempt # rest) =
     (case probes attempt of
        Output result \<Rightarrow>
          if pipewire_answers result then ([Popen ''pw-dump 2>&1''], True)
          else (Popen ''pw-dump 2>&1'' # Sleep delay # fst (wait_attempts handler probes delay rest),
                snd (wait_attempts handler probes delay rest))
      | ProbeRaises \<Rightarrow>
          (Popen ''pw-dump 2>&1'' # Sleep delay # fst (wait_attempts handler probes delay rest),
           snd (wait_attempts handler probes delay rest))
      | ProbeSigterm \<Rightarrow>
          (Popen ''pw-dump 2>&1'' # handler @ Sleep delay # fst (wait_attempts handler probes delay rest),
           snd (wait_attempts handler probes delay rest)))"

definition wait_for_pipewire ::
  "event list \<Rightarrow> (nat \<Rightarrow> probe) \<Rightarrow> nat \<Rightarrow> rat \<Rightarrow> event list \<times> bool" where
  "wait_for_pipewire handler probes max_attempts delay =
     wait_attempts handler probes delay [0..<max_attempts]"

section \<open>Provisioning: \<^verbatim>\<open>_init_VAC\<close>\<close>

text \<open>
  The objects of \<^verbatim>\<open>pw-dump\<close> as far as the program reads them: \<^verbatim>\<open>item.get("type")\<close>,
  \<^verbatim>\<open>item.get("metadata", [])\<close>, and of each metadata entry \<^verbatim>\<open>meta.get("key")\<close> and
  \<^verbatim>\<open>meta.get("value", {}).get("name")\<close>.
\<close>

record pw_meta =
  meta_key :: "string option"
  meta_value_name :: "string option"

record pw_item =
  item_type :: "string option"
  item_metadata :: "pw_meta list"

text \<open>
  The loop over \<^verbatim>\<open>pw_data\<close> that looks for the default sink. The variable
  \<^verbatim>\<open>default_sink_name\<close> is carried along: the inner loop stops at the first entry with
  the key and assigns its name, the outer loop stops once the name is true.
\<close>

fun scan_metadata :: "string option \<Rightarrow> pw_item list \<Rightarrow> string option" where
  "scan_metadata default_sink_name [] = default_sink_name"
| "scan_metadata default_sink_name (item # items) =
     (if item_type item = Some ''PipeWire:Interface:Metadata''
      then
        (let name = (case List.find (\<lambda>m. meta_key m = Some ''default.audio.sink'')
                            (item_metadata item) of
                       Some m \<Rightarrow> meta_value_name m
                     | None \<Rightarrow> default_sink_name)
         in if truthy name then name else scan_metadata name items)
      else scan_metadata default_sink_name items)"

text \<open>
  What the environment answers during one run. The audio tools' outputs are texts;
  \<open>pw_dump\<close> is the parsed output of \<^verbatim>\<open>pw-dump\<close>, \<open>None\<close> when \<^verbatim>\<open>json.loads\<close>
  raises. \<open>create_game_status\<close> and \<open>create_chat_status\<close> are the statuses that
  \<^verbatim>\<open>os.system\<close> returns for the two \<^verbatim>\<open>pw-cli create-node\<close> commands, 0 when the
  command succeeded; \<^verbatim>\<open>os.system\<close> does not raise when a command fails.
  \<open>create_raises\<close> and \<open>link_raises\<close> say that the first \<^verbatim>\<open>os.system\<close> call of the
  creating, respectively linking, \<^verbatim>\<open>try\<close> block raises a Python exception before it
  runs its command.
\<close>

record env =
  usb_find_raises :: bool
  usb_devices :: "usb_device list"
  usb_reads :: "usb_read list"
  probes :: "nat \<Rightarrow> probe"
  pw_dump :: "pw_item list option"
  pw_cli_info :: string
  pw_cli_list_objects :: string
  wpctl_status_at_capture :: string
  wpctl_status_after_create :: string
  wpctl_status_at_teardown :: string
  re_search :: "pattern \<Rightarrow> string \<Rightarrow> string option"
  create_game_status :: int
  create_chat_status :: int
  create_raises :: bool
  link_raises :: bool

text \<open>The object before provisioning has set any attribute.\<close>

definition fresh_self :: self where
  "fresh_self = \<lparr>system_default_sink = None, system_default_sink_id = None,
                 arctis_game_id = None, arctis_chat_id = None\<rparr>"

definition fresh_self_allsound :: self_allsound where
  "fresh_self_allsound = \<lparr>system_default_sink_allsound = None,
                          chatmix_game_id = None, chatmix_chat_id = None\<rparr>"

text \<open>
  The name of the default sink as \<^verbatim>\<open>_init_VAC\<close> settles it, with the commands read
  on the way: the name found in the metadata, else the stripped output of
  \<^verbatim>\<open>pw-cli info\<close>. The same text in both files.
\<close>

definition default_sink_name :: "env \<Rightarrow> pw_item list \<Rightarrow> event list \<times> string option" where
  \<open>default_sink_name E pw_data =
     (if truthy (scan_metadata None pw_data)
      then ([Popen ''pw-dump 2>&1''], scan_metadata None pw_data)
      else ([Popen ''pw-dump 2>&1'',
             Popen ''pw-cli info @DEFAULT_AUDIO_SINK@ 2>/dev/null | grep 'node.name' | cut -d'"' -f2''],
            Some (py_strip (pw_cli_info E))))\<close>

text \<open>
  The first \<^verbatim>\<open>try\<close> block of \<^verbatim>\<open>_init_VAC\<close> in \<^verbatim>\<open>Arctis_7_Plus_ChatMix.py\<close>: it
  sets \<^verbatim>\<open>system_default_sink\<close> (\<^verbatim>\<open>"auto"\<close> when no name was found) and
  \<^verbatim>\<open>system_default_sink_id\<close>.
\<close>

definition capture_default :: "env \<Rightarrow> self \<Rightarrow> event list \<times> self" where
  "capture_default E s =
     (case pw_dump E of
        None \<Rightarrow>
          ([Popen ''pw-dump 2>&1''],
           s\<lparr>system_default_sink := Some ''auto'', system_default_sink_id := None\<rparr>)
      | Some pw_data \<Rightarrow>
          (let name = snd (default_sink_name E pw_data)
           in if truthy name
              then (fst (default_sink_name E pw_data) @ [Popen ''wpctl status''],
                    s\<lparr>system_default_sink := name,
                      system_default_sink_id :=
                        re_search E (SinkIdByName (the name)) (wpctl_status_at_capture E)\<rparr>)
              else (fst (default_sink_name E pw_data),
                    s\<lparr>system_default_sink := Some ''auto'', system_default_sink_id := None\<rparr>)))"

text \<open>
  The loop over the lines of \<^verbatim>\<open>pw-cli list-objects\<close> that looks for the headset's
  own sink: the first line that contains \<^verbatim>\<open>node.name\<close>, matches the Arctis pattern
  and carries a quoted name.
\<close>

fun find_arctis_device ::
  "(pattern \<Rightarrow> string \<Rightarrow> string option) \<Rightarrow> string list \<Rightarrow> string option" where
  "find_arctis_device search [] = None"
| "find_arctis_device search (line # lines) =
     (if sublist ''node.name'' line \<and> search ArctisSeven line \<noteq> None
      then (case search NodeNameQuoted line of
              Some name \<Rightarrow> Some name
            | None \<Rightarrow> find_arctis_device search lines)
      else find_arctis_device search lines)"

text \<open>
  The variable \<^verbatim>\<open>default_sink\<close> of \<^verbatim>\<open>Arctis_7_Plus_ChatMix.py\<close>, the target of the
  links: the headset's sink when one was identified, else \<^verbatim>\<open>system_default_sink\<close>.
\<close>

definition link_target :: "env \<Rightarrow> self \<Rightarrow> string" where
  "link_target E s =
     (let arctis_device =
            find_arctis_device (re_search E) (py_split CHR 0x0A (pw_cli_list_objects E))
      in if truthy arctis_device then the arctis_device
         else the (system_default_sink s))"

text \<open>The four \<^verbatim>\<open>pw-link\<close> commands of a file, for its two sink names.\<close>

definition link_monitors :: "string \<Rightarrow> string \<Rightarrow> string \<Rightarrow> event list" where
  "link_monitors game chat default_sink =
     [PwLink (game @ '':monitor_FL'') (default_sink @ '':playback_FL''),
      PwLink (game @ '':monitor_FR'') (default_sink @ '':playback_FR''),
      PwLink (chat @ '':monitor_FL'') (default_sink @ '':playback_FL''),
      PwLink (chat @ '':monitor_FR'') (default_sink @ '':playback_FR'')]"

text \<open>
  The last \<^verbatim>\<open>try\<close> block of \<^verbatim>\<open>Arctis_7_Plus_ChatMix.py\<close>: the identifiers of the two
  sinks, and the Game sink made the default when its identifier was found.
\<close>

definition resolve_ids :: "env \<Rightarrow> self \<Rightarrow> event list \<times> self" where
  "resolve_ids E s =
     (let wpctl_output = wpctl_status_after_create E;
          arctis_game_match = re_search E ArctisGameId wpctl_output;
          arctis_chat_match = re_search E ArctisChatId wpctl_output
      in (Popen ''wpctl status'' #
          (case arctis_game_match of
             Some i \<Rightarrow> [System (''wpctl set-default '' @ i)]
           | None \<Rightarrow> []),
          s\<lparr>arctis_game_id := arctis_game_match, arctis_chat_id := arctis_chat_match\<rparr>))"

text \<open>
  The steps of \<^verbatim>\<open>_init_VAC\<close> after the wait, in \<^verbatim>\<open>Arctis_7_Plus_ChatMix.py\<close>. The
  results of the two creating \<^verbatim>\<open>os.system\<close> calls are assigned to nothing, so the
  statuses of the environment do not occur below. An exception in the creating block
  ends in \<^verbatim>\<open>die_gracefully(sink_creation_fail=True, trigger="VAC node adapter")\<close>;
  an exception in the linking block calls
  \<^verbatim>\<open>die_gracefully(sink_fail=True, trigger="LR links")\<close>, a keyword the function does
  not have, so that call raises TypeError.
\<close>

definition provision :: "env \<Rightarrow> event list \<times> (outcome + self)" where
  "provision E =
     (let captured = capture_default E fresh_self;
          s = snd captured;
          before_create =
            fst captured @
            [Popen (''pw-cli list-objects 2>/dev/null | grep -A 20 'type PipeWire:Interface:Node'' @ [CHR 0x27]),
             System ''pw-cli destroy Arctis_Game 2>/dev/null'',
             System ''pw-cli destroy Arctis_Chat 2>/dev/null'']
      in if create_raises E
         then (before_create @
                 fst (die_gracefully (re_search E) (wpctl_status_at_teardown E) s True
                        (Some ''VAC node adapter'')),
               Inl (Exited (snd (die_gracefully (re_search E) (wpctl_status_at_teardown E) s True
                        (Some ''VAC node adapter'')))))
         else
           (let created =
                  before_create @
                  [CreateNode ''Arctis_Game'' ''Arctis 7+ Game'',
                   CreateNode ''Arctis_Chat'' ''Arctis 7+ Chat'',
                   Sleep (1 / 2)]
            in if link_raises E then (created, Inl (Crashed ''TypeError''))
               else (created @ link_monitors ''Arctis_Game'' ''Arctis_Chat'' (link_target E s)
                       @ fst (resolve_ids E s),
                     Inr (snd (resolve_ids E s)))))"

text \<open>
  \<^verbatim>\<open>_init_VAC\<close> of \<^verbatim>\<open>Arctis_7_Plus_ChatMix.py\<close>: the wait of at most 10 attempts,
  half a second apart, then either \<^verbatim>\<open>die_gracefully(trigger="PipeWire not
  available")\<close> or the steps above.
\<close>

definition init_VAC :: "env \<Rightarrow> event list \<times> (outcome + self)" where
  "init_VAC E =
     (let die = die_gracefully (re_search E) (wpctl_status_at_teardown E) fresh_self;
          waited = wait_for_pipewire (fst (die False None)) (probes E) 10 (1 / 2)
      in if \<not> snd waited
         then (fst waited @ fst (die False (Some ''PipeWire not available'')),
               Inl (Exited (snd (die False (Some ''PipeWire not available'')))))
         else (fst waited @ fst (provision E), snd (provision E)))"

text \<open>
  The same steps in \<^verbatim>\<open>AllSound7P_ChatMix.py\<close>: no identifier of the default sink is
  kept, the search for the headset's own sink is commented out, the links go to
  \<^verbatim>\<open>system_default_sink\<close>, and the default sink is left alone.
\<close>

definition capture_default_allsound :: "env \<Rightarrow> self_allsound \<Rightarrow> event list \<times> self_allsound" where
  "capture_default_allsound E s =
     (case pw_dump E of
        None \<Rightarrow> ([Popen ''pw-dump 2>&1''], s\<lparr>system_default_sink_allsound := Some ''auto''\<rparr>)
      | Some pw_data \<Rightarrow>
          (let name = snd (default_sink_name E pw_data)
           in (fst (default_sink_name E pw_data),
               s\<lparr>system_default_sink_allsound := (if truthy name then name else Some ''auto'')\<rparr>)))"

definition resolve_ids_allsound :: "env \<Rightarrow> self_allsound \<Rightarrow> event list \<times> self_allsound" where
  "resolve_ids_allsound E s =
     (let wpctl_output = wpctl_status_after_create E;
          chatmix_game_match = re_search E ChatMixGameId wpctl_output;
          chatmix_chat_match = re_search E ChatMixChatId wpctl_output
      in ([Popen ''wpctl status''],
          s\<lparr>chatmix_game_id := chatmix_game_match, chatmix_chat_id := chatmix_chat_match\<rparr>))"

definition provision_allsound :: "env \<Rightarrow> event list \<times> (outcome + self_allsound)" where
  "provision_allsound E =
     (let captured = capture_default_allsound E fresh_self_allsound;
          s = snd captured;
          before_create =
            fst captured @
            [System ''pw-cli destroy ChatMix_Game 2>/dev/null'',
             System ''pw-cli destroy ChatMix_Chat 2>/dev/null'']
      in if create_raises E
         then (before_create @ fst (die_gracefully_allsound True (Some ''VAC node adapter'')),
               Inl (Exited (snd (die_gracefully_allsound True (Some ''VAC node adapter'')))))
         else
           (let created =
                  before_create @
                  [CreateNode ''ChatMix_Game'' ''ChatMix Game'',
                   CreateNode ''ChatMix_Chat'' ''ChatMix Chat'',
                   Sleep (1 / 2)]
            in if link_raises E then (created, Inl (Crashed ''TypeError''))
               else (created
                       @ link_monitors ''ChatMix_Game'' ''ChatMix_Chat''
                           (the (system_default_sink_allsound s))
                       @ fst (resolve_ids_allsound E s),
                     Inr (snd (resolve_ids_allsound E s)))))"

definition init_VAC_allsound :: "env \<Rightarrow> event list \<times> (outcome + self_allsound)" where
  "init_VAC_allsound E =
     (let waited =
            wait_for_pipewire (fst (die_gracefully_allsound False None)) (probes E) 10 (1 / 2)
      in if \<not> snd waited
         then (fst waited @ fst (die_gracefully_allsound False (Some ''PipeWire not available'')),
               Inl (Exited (snd (die_gracefully_allsound False (Some ''PipeWire not available'')))))
         else (fst waited @ fst (provision_allsound E), snd (provision_allsound E)))"

section \<open>The whole run\<close>

text \<open>
  \<^verbatim>\<open>Arctis7PlusChatMix()\<close>: the headset is located, then \<^verbatim>\<open>_init_VAC\<close> runs. An
  \<open>Inl\<close> result is a run that ended there.
\<close>

definition init :: "env \<Rightarrow> event list \<times> (outcome + self)" where
  "init E =
     (case init_usb (die_gracefully (re_search E) (wpctl_status_at_teardown E) fresh_self)
             (usb_find_raises E) (usb_devices E) of
        (ev, Inl out) \<Rightarrow> (ev, Inl out)
      | (ev, Inr h) \<Rightarrow> (ev @ fst (init_VAC E), snd (init_VAC E)))"

definition init_allsound :: "env \<Rightarrow> event list \<times> (outcome + self_allsound)" where
  "init_allsound E =
     (case init_usb die_gracefully_allsound (usb_find_raises E) (usb_devices E) of
        (ev, Inl out) \<Rightarrow> (ev, Inl out)
      | (ev, Inr h) \<Rightarrow> (ev @ fst (init_VAC_allsound E), snd (init_VAC_allsound E)))"

text \<open>
  The main block: \<^verbatim>\<open>a7pcm_service = Arctis7PlusChatMix()\<close> and then
  \<^verbatim>\<open>a7pcm_service.start_modulator_signal()\<close>, after which the file ends.
\<close>

definition main :: "env \<Rightarrow> event list \<times> outcome" where
  "main E =
     (case init E of
        (ev, Inl out) \<Rightarrow> (ev, out)
      | (ev, Inr s) \<Rightarrow>
          (ev @ fst (start_modulator_signal (re_search E) (wpctl_status_at_teardown E) s
                       (usb_reads E)),
           snd (start_modulator_signal (re_search E) (wpctl_status_at_teardown E) s
                  (usb_reads E))))"

definition main_allsound :: "env \<Rightarrow> event list \<times> outcome" where
  "main_allsound E =
     (case init_allsound E of
        (ev, Inl out) \<Rightarrow> (ev, out)
      | (ev, Inr s) \<Rightarrow>
          (ev @ fst (start_modulator_signal_allsound s (usb_reads E)),
           snd (start_modulator_signal_allsound s (usb_reads E))))"

section \<open>Notions used to state the properties\<close>

text \<open>An event that sets a volume, and an iteration that issues such a command.\<close>

fun is_set_volume :: "event \<Rightarrow> bool" where
  "is_set_volume (SetVolume i l) = True"
| "is_set_volume e = False"


fun is_link :: "event \<Rightarrow> bool" where
  "is_link (PwLink src dst) = True"
| "is_link e = False"


text \<open>
  Whether an attempt of the wait finds the audio service: the read returned a text
  and the text passes the test.
\<close>

fun answers :: "probe \<Rightarrow> bool" where
  "answers (Output result) = pipewire_answers result"
| "answers ProbeRaises = False"
| "answers ProbeSigterm = False"

text \<open>
  The specification's device selection, in its words: the first device enumerated
  whose (vendor, product) pair is in the known set.
\<close>

definition known_pairs :: "(nat \<times> nat) list" where
  "known_pairs = [(0x1038, 0x220e), (0x1038, 0x227a)]"

definition spec_first_known_device :: "usb_device list \<Rightarrow> usb_device option" where
  "spec_first_known_device devices =
     List.find (\<lambda>d. (idVendor d, idProduct d) \<in> set known_pairs) devices"

section \<open>Example inputs\<close>

text \<open>
  An Arctis 7+ whose ninth interface is the dial's (interface number 5, still held
  by a kernel driver), and a Nova 7 with the same layout.
\<close>

definition dial_interfaces :: "usb_interface list" where
  "dial_interfaces =
     replicate 8 \<lparr>bInterfaceNumber = 0, endpoints = []\<rparr> @
     [\<lparr>bInterfaceNumber = 5,
       endpoints = [\<lparr>bEndpointAddress = 0x87, wMaxPacketSize = 64\<rparr>]\<rparr>]"

definition arctis_headset :: usb_device where
  "arctis_headset = \<lparr>idVendor = 0x1038, idProduct = 0x220e,
     configurations = [dial_interfaces], kernel_driver_active = [5]\<rparr>"

definition nova_headset :: usb_device where
  "nova_headset = \<lparr>idVendor = 0x1038, idProduct = 0x227a,
     configurations = [dial_interfaces], kernel_driver_active = []\<rparr>"

text \<open>
  The texts of the examples: what \<^verbatim>\<open>wpctl status\<close> lists before the virtual sinks
  exist and after (with the sinks of both files), and the line of the object listing
  that names the headset's own sink.
\<close>

definition status_before :: string where
  "status_before = '' 45. speakers''"

definition status_after :: string where
  "status_after =
     '' 45. speakers'' @ [CHR 0x0A] @
     '' 61. Arctis 7+ Game'' @ [CHR 0x0A] @
     '' 62. Arctis 7+ Chat'' @ [CHR 0x0A] @
     '' 71. ChatMix Game'' @ [CHR 0x0A] @
     '' 72. ChatMix Chat''"

definition object_line :: string where
  \<open>object_line = ''node.name = "Arctis_7"''\<close>

text \<open>
  A stand-in for the regular-expression search: the answers of \<^verbatim>\<open>re.search\<close> on
  the texts of the examples, and none on any other text.
\<close>

fun example_search :: "pattern \<Rightarrow> string \<Rightarrow> string option" where
  "example_search (SinkIdByName n) text =
     (if n = ''speakers'' \<and> (text = status_before \<or> text = status_after)
      then Some ''45'' else None)"
| "example_search ArctisGameId text = (if text = status_after then Some ''61'' else None)"
| "example_search ArctisChatId text = (if text = status_after then Some ''62'' else None)"
| "example_search ChatMixGameId text = (if text = status_after then Some ''71'' else None)"
| "example_search ChatMixChatId text = (if text = status_after then Some ''72'' else None)"
| "example_search ArctisSeven text = (if text = object_line then Some [] else None)"
| "example_search NodeNameQuoted text =
     (if text = object_line then Some ''Arctis_7'' else None)"

text \<open>
  A run in which everything works: the audio service answers at once, the default
  sink is \<^verbatim>\<open>speakers\<close>, the headset's own sink is listed, one report is read and
  then the headset is unplugged.
\<close>

definition example_env :: env where
  \<open>example_env =
     \<lparr>usb_find_raises = False,
      usb_devices = [arctis_headset],
      usb_reads = [Report [0, 50, 50], USBError],
      probes = (\<lambda>attempt. Output ''[]''),
      pw_dump = Some [\<lparr>item_type = Some ''PipeWire:Interface:Metadata'',
                       item_metadata = [\<lparr>meta_key = Some ''default.audio.sink'',
                                         meta_value_name = Some ''speakers''\<rparr>]\<rparr>],
      pw_cli_info = [],
      pw_cli_list_objects = object_line,
      wpctl_status_at_capture = status_before,
      wpctl_status_after_create = status_after,
      wpctl_status_at_teardown = status_after,
      re_search = example_search,
      create_game_status = 0,
      create_chat_status = 0,
      create_raises = False,
      link_raises = False\<rparr>\<close>

text \<open>
  The same machine while the audio service is down: it never answers, and SIGTERM
  arrives during the first attempt of the wait.
\<close>

definition sigterm_while_waiting_env :: env where
  "sigterm_while_waiting_env =
     example_env\<lparr>probes :=
       (\<lambda>attempt. if attempt = 0 then ProbeSigterm else Output ''can't connect'')\<rparr>"

text \<open>
  The same machine when the audio service refuses to create the sinks: both
  \<^verbatim>\<open>pw-cli create-node\<close> commands exit with code 1 (status 256), the status listing
  read afterwards is the one from before, and one report is read.
\<close>

definition creation_fails_env :: env where
  "creation_fails_env =
     example_env\<lparr>wpctl_status_after_create := status_before, usb_reads := [Report [0, 50, 50]],
                 create_game_status := 256, create_chat_status := 256\<rparr>"


definition example_self :: self where
  "example_self = \<lparr>system_default_sink = Some ''speakers'', system_default_sink_id = Some ''45'',
                   arctis_game_id = Some ''61'', arctis_chat_id = Some ''62''\<rparr>"

definition example_self_allsound :: self_allsound where
  "example_self_allsound = \<lparr>system_default_sink_allsound = Some ''speakers'',
                            chatmix_game_id = Some ''71'', chatmix_chat_id = Some ''72''\<rparr>"

section \<open>The polling loop, iteration by iteration\<close>

text \<open>The equations of the loop without its variables.\<close>

lemma modulator_loop_simps [simp]:
  "modulator_loop handler s prev [] = ([], Running)"
  "modulator_loop handler s prev (Report read_input # rs) =
     (if length read_input < 3 then ([[]], Crashed ''IndexError'')
      else
        let game_val = read_input ! 1; chat_val = read_input ! 2
        in if Some game_val \<noteq> fst prev \<or> Some chat_val \<noteq> snd prev
           then
             let (steps, out) = modulator_loop handler s (Some game_val, Some chat_val) rs
             in (set_volumes (arctis_game_id s) (arctis_chat_id s) game_val chat_val # steps, out)
           else
             let (steps, out) = modulator_loop handler s prev rs
             in ([] # steps, out))"
  "modulator_loop handler s prev (USBTimeoutError # rs) =
     (let (steps, out) = modulator_loop handler s prev rs in ([] # steps, out))"
  "modulator_loop handler s prev (USBError # rs) =
     ([[LogFatal ''USB input/output error - likely disconnect'']], Returned)"
  "modulator_loop handler s prev (Sigterm # rs) =
     ([fst handler], Exited (snd handler))"
  by (simp_all add: modulator_loop_def Let_def case_prod_beta)







section \<open>Debouncing\<close>




section \<open>The commands of the loop\<close>

lemma set_volumes_unfold:
  "set_volumes g c a b =
     (if truthy g then [SetVolume (the g) (rat_of_nat (unat a) / 100)] else []) @
     (if truthy c then [SetVolume (the c) (rat_of_nat (unat b) / 100)] else [])"
  by (simp add: set_volumes_def Let_def)


lemma die_gracefully_no_set_volume:
  "\<not> list_ex is_set_volume (fst (die_gracefully re w s f t))"
  by (simp add: die_gracefully_def split: option.splits)

lemma die_gracefully_allsound_no_set_volume:
  "\<not> list_ex is_set_volume (fst (die_gracefully_allsound f t))"
  by (simp add: die_gracefully_allsound_def split: option.splits)

lemma modulator_loop_levels:
  assumes "SetVolume i l \<in> set (concat (fst (modulator_loop h s prev reads)))"
    and "\<not> list_ex is_set_volume (fst h)"
  shows "\<exists>bs. Report bs \<in> set reads \<and> 3 \<le> length bs \<and>
           ((truthy (arctis_game_id s) \<and> i = the (arctis_game_id s)
               \<and> l = rat_of_nat (unat (bs ! 1)) / 100)
            \<or> (truthy (arctis_chat_id s) \<and> i = the (arctis_chat_id s)
               \<and> l = rat_of_nat (unat (bs ! 2)) / 100))"
  using assms(1)
proof (induction reads arbitrary: prev)
  case Nil
  then show ?case by simp
next
  case (Cons r rs)
  show ?case
  proof (cases r)
    case (Report read_input)
    show ?thesis
    proof (cases "length read_input < 3")
      case True
      with Cons.prems Report show ?thesis by simp
    next
      case False
      show ?thesis
      proof (cases "Some (read_input ! 1) \<noteq> fst prev \<or> Some (read_input ! 2) \<noteq> snd prev")
        case True
        from Cons.prems Report False True
        consider "SetVolume i l \<in> set (set_volumes (arctis_game_id s) (arctis_chat_id s)
                    (read_input ! 1) (read_input ! 2))"
          | "SetVolume i l \<in> set (concat (fst (modulator_loop h s
                    (Some (read_input ! 1), Some (read_input ! 2)) rs)))"
          by (auto simp: Let_def case_prod_beta)
        then show ?thesis
        proof cases
          case 1
          then show ?thesis using False Report
            by (auto simp: set_volumes_unfold split: if_splits intro!: exI[of _ read_input])
        next
          case 2
          from Cons.IH[OF 2] show ?thesis by auto
        qed
      next
        case no: False
        from Cons.prems Report False no
        have "SetVolume i l \<in> set (concat (fst (modulator_loop h s prev rs)))"
          by (auto simp: Let_def case_prod_beta)
        from Cons.IH[OF this] show ?thesis by auto
      qed
    qed
  next
    case USBTimeoutError
    with Cons.prems have "SetVolume i l \<in> set (concat (fst (modulator_loop h s prev rs)))"
      by (simp add: case_prod_beta)
    from Cons.IH[OF this] show ?thesis by auto
  next
    case USBError
    with Cons.prems show ?thesis by simp
  next
    case Sigterm
    with Cons.prems assms(2) show ?thesis by (auto simp: list_ex_iff)
  qed
qed

lemma modulator_loop_allsound_levels:
  assumes "SetVolume i l \<in> set (concat (fst (modulator_loop_allsound h s reads)))"
    and "\<not> list_ex is_set_volume (fst h)"
  shows "\<exists>bs. Report bs \<in> set reads \<and> 3 \<le> length bs \<and>
           ((truthy (chatmix_game_id s) \<and> i = the (chatmix_game_id s)
               \<and> l = rat_of_nat (unat (bs ! 1)) / 100)
            \<or> (truthy (chatmix_chat_id s) \<and> i = the (chatmix_chat_id s)
               \<and> l = rat_of_nat (unat (bs ! 2)) / 100))"
  using assms(1)
proof (induction reads)
  case Nil
  then show ?case by simp
next
  case (Cons r rs)
  show ?case
  proof (cases r)
    case (Report read_input)
    show ?thesis
    proof (cases "length read_input < 3")
      case True
      with Cons.prems Report show ?thesis by simp
    next
      case False
      from Cons.prems Report False
      consider "SetVolume i l \<in> set (set_volumes (chatmix_game_id s) (chatmix_chat_id s)
                  (read_input ! 1) (read_input ! 2))"
        | "SetVolume i l \<in> set (concat (fst (modulator_loop_allsound h s rs)))"
        by (auto simp: Let_def case_prod_beta)
      then show ?thesis
      proof cases
        case 1
        then show ?thesis using False Report
          by (auto simp: set_volumes_unfold split: if_splits intro!: exI[of _ read_input])
      next
        case 2
        from Cons.IH[OF 2] show ?thesis by auto
      qed
    qed
  next
    case USBTimeoutError
    with Cons.prems have "SetVolume i l \<in> set (concat (fst (modulator_loop_allsound h s rs)))"
      by (simp add: case_prod_beta)
    from Cons.IH[OF this] show ?thesis by auto
  next
    case USBError
    with Cons.prems show ?thesis by simp
  next
    case Sigterm
    with Cons.prems assms(2) show ?thesis by (auto simp: list_ex_iff)
  qed
qed



text \<open>
  Claim C9. Every volume-set command in the events of the polling loop, in either
  file, carries the level \<open>v / 100\<close> of a raw byte \<open>v\<close> read at offset 1 (for the
  Game sink) or offset 2 (for the Chat sink) of a report that was read; the commands
  of one iteration are those of the resolved sinks with these levels; 0 gives 0,
  100 gives 1 and 37 gives 37/100.
\<close>

theorem normalized_level:
  "(SetVolume i l \<in> set (fst (start_modulator_signal re w s reads)) \<longrightarrow>
      (\<exists>bs. Report bs \<in> set reads \<and> 3 \<le> length bs \<and>
         ((truthy (arctis_game_id s) \<and> i = the (arctis_game_id s)
             \<and> l = rat_of_nat (unat (bs ! 1)) / 100)
          \<or> (truthy (arctis_chat_id s) \<and> i = the (arctis_chat_id s)
             \<and> l = rat_of_nat (unat (bs ! 2)) / 100))))
   \<and> (SetVolume i l \<in> set (fst (start_modulator_signal_allsound s' reads)) \<longrightarrow>
      (\<exists>bs. Report bs \<in> set reads \<and> 3 \<le> length bs \<and>
         ((truthy (chatmix_game_id s') \<and> i = the (chatmix_game_id s')
             \<and> l = rat_of_nat (unat (bs ! 1)) / 100)
          \<or> (truthy (chatmix_chat_id s') \<and> i = the (chatmix_chat_id s')
             \<and> l = rat_of_nat (unat (bs ! 2)) / 100))))
   \<and> set_volumes g c a b =
       (if truthy g then [SetVolume (the g) (rat_of_nat (unat a) / 100)] else []) @
       (if truthy c then [SetVolume (the c) (rat_of_nat (unat b) / 100)] else [])
   \<and> set_volumes (Some ''61'') (Some ''62'') 0 100 = [SetVolume ''61'' 0, SetVolume ''62'' 1]
   \<and> set_volumes (Some ''61'') (Some ''62'') 37 37
       = [SetVolume ''61'' (37 / 100), SetVolume ''62'' (37 / 100)]"
proof -
  have a: "SetVolume i l \<in> set (fst (start_modulator_signal re w s reads)) \<longrightarrow>
      (\<exists>bs. Report bs \<in> set reads \<and> 3 \<le> length bs \<and>
         ((truthy (arctis_game_id s) \<and> i = the (arctis_game_id s)
             \<and> l = rat_of_nat (unat (bs ! 1)) / 100)
          \<or> (truthy (arctis_chat_id s) \<and> i = the (arctis_chat_id s)
             \<and> l = rat_of_nat (unat (bs ! 2)) / 100)))"
    using modulator_loop_levels[OF _ die_gracefully_no_set_volume, of i l re w s False None s "(None, None)" reads]
    by (simp add: start_modulator_signal_def case_prod_beta)
  have b: "SetVolume i l \<in> set (fst (start_modulator_signal_allsound s' reads)) \<longrightarrow>
      (\<exists>bs. Report bs \<in> set reads \<and> 3 \<le> length bs \<and>
         ((truthy (chatmix_game_id s') \<and> i = the (chatmix_game_id s')
             \<and> l = rat_of_nat (unat (bs ! 1)) / 100)
          \<or> (truthy (chatmix_chat_id s') \<and> i = the (chatmix_chat_id s')
             \<and> l = rat_of_nat (unat (bs ! 2)) / 100)))"
    using modulator_loop_allsound_levels[OF _ die_gracefully_allsound_no_set_volume, of i l False None s' reads]
    by (simp add: start_modulator_signal_allsound_def case_prod_beta)
  have c: "set_volumes (Some ''61'') (Some ''62'') 0 100 = [SetVolume ''61'' 0, SetVolume ''62'' 1]"
    "set_volumes (Some ''61'') (Some ''62'') 37 37
       = [SetVolume ''61'' (37 / 100), SetVolume ''62'' (37 / 100)]"
    by (simp_all add: set_volumes_unfold)
  from a b c set_volumes_unfold[of g c a b] show ?thesis by blast
qed

text \<open>
  Claim C9 on a report with the raw values 37 and 100: the Game command carries
  37/100, which the theorem traces back to the byte at offset 1.
\<close>

theorem normalized_level_witness:
  "SetVolume ''61'' (37 / 100) \<in> set (fst (start_modulator_signal example_search status_after
       example_self [Report [0, 37, 100]]))
   \<and> (\<exists>bs. Report bs \<in> set [Report [0, 37, 100]] \<and> 3 \<le> length bs \<and>
         (37 / 100 = rat_of_nat (unat (bs ! 1)) / 100 \<or> 37 / 100 = rat_of_nat (unat (bs ! 2)) / 100))
   \<and> SetVolume ''72'' 1 \<in> set (fst (start_modulator_signal_allsound example_self_allsound
       [Report [0, 37, 100]]))"
proof -
  have m: "SetVolume ''61'' (37 / 100) \<in> set (fst (start_modulator_signal example_search status_after
       example_self [Report [0, 37, 100]]))"
    by (simp add: start_modulator_signal_def example_self_def set_volumes_unfold case_prod_beta)
  have m': "SetVolume ''72'' 1 \<in> set (fst (start_modulator_signal_allsound example_self_allsound
       [Report [0, 37, 100]]))"
    by (simp add: start_modulator_signal_allsound_def example_self_allsound_def set_volumes_unfold
        case_prod_beta)
  from normalized_level[of "''61''" "37 / 100" example_search status_after example_self
      "[Report [0, 37, 100]]" example_self_allsound None None 0 0] m
  have "\<exists>bs. Report bs \<in> set [Report [0, 37, 100]] \<and> 3 \<le> length bs \<and>
         (37 / 100 = rat_of_nat (unat (bs ! 1)) / 100 \<or> 37 / 100 = rat_of_nat (unat (bs ! 2)) / 100)"
    by blast
  with m m' show ?thesis by blast
qed







section \<open>The wait for the audio service\<close>

lemma refused: "\<not> pipewire_answers ''can't connect''"
  by code_simp

lemma answered: "pipewire_answers ''[]''"
  by code_simp

lemma wait_attempts_result:
  "snd (wait_attempts h p d as) \<longleftrightarrow> (\<exists>a\<in>set as. answers (p a))"
  by (induction as) (auto split: probe.splits)

lemma wait_attempts_count:
  "Popen ''pw-dump 2>&1'' \<notin> set h \<Longrightarrow>
   count_list (fst (wait_attempts h p d as)) (Popen ''pw-dump 2>&1'') \<le> length as"
  by (induction as) (auto split: probe.splits simp: count_list_0_iff)

lemma wait_attempts_count_unanswered:
  "Popen ''pw-dump 2>&1'' \<notin> set h \<Longrightarrow> \<forall>a\<in>set as. \<not> answers (p a) \<Longrightarrow>
   count_list (fst (wait_attempts h p d as)) (Popen ''pw-dump 2>&1'') = length as"
  by (induction as) (auto split: probe.splits simp: count_list_0_iff)

lemma wait_attempts_sleep:
  "Sleep x \<in> set (fst (wait_attempts h p d as)) \<Longrightarrow> Sleep x \<notin> set h \<Longrightarrow> x = d"
  by (induction as) (auto split: probe.splits if_splits)

lemma fresh_teardown:
  "die_gracefully re w fresh_self False t =
     ([System ''pw-cli destroy Arctis_Game 1>/dev/null'',
       System ''pw-cli destroy Arctis_Chat 1>/dev/null''] @
      (case t of Some r \<Rightarrow> [LogFatal (''Failure reason: '' @ r)] | None \<Rightarrow> []),
      (case t of Some r \<Rightarrow> 1 | None \<Rightarrow> 0))"
  by (simp add: die_gracefully_def fresh_self_def)

text \<open>The events of one attempt that does not find the audio service.\<close>

lemma wait_attempts_unanswered:
  "\<forall>a\<in>set as. \<not> answers (p a) \<Longrightarrow>
   wait_attempts h p d as =
     (concat (map (\<lambda>a. Popen ''pw-dump 2>&1'' # (if p a = ProbeSigterm then h else []) @ [Sleep d])
        as), False)"
  by (induction as) (auto split: probe.splits)

lemma wait_attempts_answered:
  "\<forall>a\<in>set as. \<not> answers (p a) \<Longrightarrow> answers (p k) \<Longrightarrow>
   wait_attempts h p d (as @ k # rest) =
     (concat (map (\<lambda>a. Popen ''pw-dump 2>&1'' # (if p a = ProbeSigterm then h else []) @ [Sleep d])
        as) @ [Popen ''pw-dump 2>&1''], True)"
  by (induction as) (auto split: probe.splits)

lemma count_sleeps_unanswered:
  "Sleep d \<notin> set h \<Longrightarrow>
   count_list (concat (map (\<lambda>a. Popen ''pw-dump 2>&1'' # (if p a = ProbeSigterm then h else [])
      @ [Sleep d]) as)) (Sleep d) = length as"
  by (induction as) (auto simp: count_list_0_iff)

lemma wait_attempts_sleeps:
  "Popen ''pw-dump 2>&1'' \<notin> set h \<Longrightarrow> Sleep d \<notin> set h \<Longrightarrow>
   count_list (fst (wait_attempts h p d as)) (Sleep d)
     + (if snd (wait_attempts h p d as) then 1 else 0)
   = count_list (fst (wait_attempts h p d as)) (Popen ''pw-dump 2>&1'')"
  by (induction as) (auto split: probe.splits simp: count_list_0_iff)

text \<open>
  Claim C8. \<^verbatim>\<open>wait_for_pipewire\<close> always returns: it is a loop over
  \<^verbatim>\<open>range(max_attempts)\<close>. With a signal handler that neither probes nor sleeps, it
  runs \<^verbatim>\<open>pw-dump\<close> at most \<open>max_attempts\<close> times, every sleep lasts the one
  \<open>delay\<close>, and it returns true exactly when one of the attempts finds the service.
  Every attempt that does not find the service is followed by one sleep of \<open>delay\<close>
  before the next: the events are, attempt by attempt, the probe, the handler's events
  if SIGTERM arrived, and the sleep, up to the probe of the first attempt that finds
  the service; there are as many sleeps as attempts that failed. When none of the 10
  attempts of \<^verbatim>\<open>_init_VAC\<close> finds it, \<^verbatim>\<open>_init_VAC\<close> ends, in either file, after
  exactly 10 probes and 10 sleeps of half a second in \<^verbatim>\<open>sys.exit(1)\<close> with the
  logged reason \<^verbatim>\<open>PipeWire not available\<close>.
\<close>

theorem wait_is_bounded:
  assumes "Popen ''pw-dump 2>&1'' \<notin> set h" and "\<forall>x. Sleep x \<notin> set h"
  shows "count_list (fst (wait_for_pipewire h p n d)) (Popen ''pw-dump 2>&1'') \<le> n
     \<and> (snd (wait_for_pipewire h p n d) \<longleftrightarrow> (\<exists>k<n. answers (p k)))
     \<and> (\<forall>x. Sleep x \<in> set (fst (wait_for_pipewire h p n d)) \<longrightarrow> x = d)
     \<and> ((\<forall>k<10. \<not> answers (probes E k)) \<longrightarrow>
          snd (init_VAC E) = Inl (Exited 1)
          \<and> last (fst (init_VAC E)) = LogFatal ''Failure reason: PipeWire not available''
          \<and> count_list (fst (init_VAC E)) (Popen ''pw-dump 2>&1'') = 10
          \<and> snd (init_VAC_allsound E) = Inl (Exited 1)
          \<and> last (fst (init_VAC_allsound E)) = LogFatal ''Failure reason: PipeWire not available''
          \<and> count_list (fst (init_VAC_allsound E)) (Popen ''pw-dump 2>&1'') = 10)
     \<and> count_list (fst (wait_for_pipewire h p n d)) (Sleep d)
          + (if snd (wait_for_pipewire h p n d) then 1 else 0)
        = count_list (fst (wait_for_pipewire h p n d)) (Popen ''pw-dump 2>&1'')
     \<and> ((\<forall>k<n. \<not> answers (p k)) \<longrightarrow>
          wait_for_pipewire h p n d =
            (concat (map (\<lambda>a. Popen ''pw-dump 2>&1'' # (if p a = ProbeSigterm then h else [])
                @ [Sleep d]) [0..<n]), False))
     \<and> (k < n \<and> answers (p k) \<and> (\<forall>j<k. \<not> answers (p j)) \<longrightarrow>
          wait_for_pipewire h p n d =
            (concat (map (\<lambda>a. Popen ''pw-dump 2>&1'' # (if p a = ProbeSigterm then h else [])
                @ [Sleep d]) [0..<k]) @ [Popen ''pw-dump 2>&1''], True))
     \<and> ((\<forall>k<10. \<not> answers (probes E k)) \<longrightarrow>
          count_list (fst (init_VAC E)) (Sleep (1 / 2)) = 10
          \<and> count_list (fst (init_VAC_allsound E)) (Sleep (1 / 2)) = 10)"
proof -
  have a: "count_list (fst (wait_for_pipewire h p n d)) (Popen ''pw-dump 2>&1'') \<le> n"
    using wait_attempts_count[OF assms(1), of p d "[0..<n]"]
    by (simp add: wait_for_pipewire_def)
  have b: "snd (wait_for_pipewire h p n d) \<longleftrightarrow> (\<exists>k<n. answers (p k))"
    by (auto simp: wait_for_pipewire_def wait_attempts_result)
  have c: "\<forall>x. Sleep x \<in> set (fst (wait_for_pipewire h p n d)) \<longrightarrow> x = d"
    using assms(2) by (auto simp: wait_for_pipewire_def dest: wait_attempts_sleep)
  have d: "snd (init_VAC E) = Inl (Exited 1)
          \<and> last (fst (init_VAC E)) = LogFatal ''Failure reason: PipeWire not available''
          \<and> count_list (fst (init_VAC E)) (Popen ''pw-dump 2>&1'') = 10
          \<and> count_list (fst (init_VAC E)) (Sleep (1 / 2)) = 10"
    if never: "\<forall>k<10. \<not> answers (probes E k)"
  proof -
    let ?h = "[System ''pw-cli destroy Arctis_Game 1>/dev/null'',
               System ''pw-cli destroy Arctis_Chat 1>/dev/null'']"
    have no: "\<not> snd (wait_for_pipewire ?h (probes E) 10 (1 / 2))"
      using never by (simp add: wait_for_pipewire_def wait_attempts_result)
    have cnt: "count_list (fst (wait_for_pipewire ?h (probes E) 10 (1 / 2))) (Popen ''pw-dump 2>&1'') = 10"
      using never wait_attempts_count_unanswered[of ?h "[0..<10]" "probes E" "1 / 2"]
      by (simp add: wait_for_pipewire_def)
    have sl: "count_list (fst (wait_for_pipewire ?h (probes E) 10 (1 / 2))) (Sleep (1 / 2)) = 10"
      using never wait_attempts_unanswered[of "[0..<10]" "probes E" ?h "1 / 2"]
        count_sleeps_unanswered[of "1 / 2" ?h "probes E" "[0..<10]"]
      by (simp add: wait_for_pipewire_def)
    show ?thesis using no cnt sl
      by (simp add: init_VAC_def Let_def fresh_teardown)
  qed
  have e: "snd (init_VAC_allsound E) = Inl (Exited 1)
          \<and> last (fst (init_VAC_allsound E)) = LogFatal ''Failure reason: PipeWire not available''
          \<and> count_list (fst (init_VAC_allsound E)) (Popen ''pw-dump 2>&1'') = 10
          \<and> count_list (fst (init_VAC_allsound E)) (Sleep (1 / 2)) = 10"
    if never: "\<forall>k<10. \<not> answers (probes E k)"
  proof -
    let ?h = "[System ''pw-cli destroy ChatMix_Game 1>/dev/null'',
               System ''pw-cli destroy ChatMix_Chat 1>/dev/null'']"
    have no: "\<not> snd (wait_for_pipewire ?h (probes E) 10 (1 / 2))"
      using never by (simp add: wait_for_pipewire_def wait_attempts_result)
    have cnt: "count_list (fst (wait_for_pipewire ?h (probes E) 10 (1 / 2))) (Popen ''pw-dump 2>&1'') = 10"
      using never wait_attempts_count_unanswered[of ?h "[0..<10]" "probes E" "1 / 2"]
      by (simp add: wait_for_pipewire_def)
    have sl: "count_list (fst (wait_for_pipewire ?h (probes E) 10 (1 / 2))) (Sleep (1 / 2)) = 10"
      using never wait_attempts_unanswered[of "[0..<10]" "probes E" ?h "1 / 2"]
        count_sleeps_unanswered[of "1 / 2" ?h "probes E" "[0..<10]"]
      by (simp add: wait_for_pipewire_def)
    show ?thesis using no cnt sl
      by (simp add: init_VAC_allsound_def Let_def die_gracefully_allsound_def)
  qed
  have f: "count_list (fst (wait_for_pipewire h p n d)) (Sleep d)
          + (if snd (wait_for_pipewire h p n d) then 1 else 0)
        = count_list (fst (wait_for_pipewire h p n d)) (Popen ''pw-dump 2>&1'')"
    using wait_attempts_sleeps[OF assms(1), of d p "[0..<n]"] assms(2)
    by (simp add: wait_for_pipewire_def)
  have g: "(\<forall>k<n. \<not> answers (p k)) \<longrightarrow>
          wait_for_pipewire h p n d =
            (concat (map (\<lambda>a. Popen ''pw-dump 2>&1'' # (if p a = ProbeSigterm then h else [])
                @ [Sleep d]) [0..<n]), False)"
    by (simp add: wait_for_pipewire_def wait_attempts_unanswered)
  have i: "k < n \<and> answers (p k) \<and> (\<forall>j<k. \<not> answers (p j)) \<longrightarrow>
          wait_for_pipewire h p n d =
            (concat (map (\<lambda>a. Popen ''pw-dump 2>&1'' # (if p a = ProbeSigterm then h else [])
                @ [Sleep d]) [0..<k]) @ [Popen ''pw-dump 2>&1''], True)"
  proof
    assume first: "k < n \<and> answers (p k) \<and> (\<forall>j<k. \<not> answers (p j))"
    then have split: "[0..<n] = [0..<k] @ k # [Suc k..<n]"
      by (metis le_add2 le_add_same_cancel2 upt_add_eq_append upt_conv_Cons less_imp_le_nat
          le_add_diff_inverse)
    from first have "\<forall>a\<in>set [0..<k]. \<not> answers (p a)"
      by simp
    from wait_attempts_answered[OF this, of k h d "[Suc k..<n]"] first
    show "wait_for_pipewire h p n d =
            (concat (map (\<lambda>a. Popen ''pw-dump 2>&1'' # (if p a = ProbeSigterm then h else [])
                @ [Sleep d]) [0..<k]) @ [Popen ''pw-dump 2>&1''], True)"
      by (simp add: wait_for_pipewire_def split)
  qed
  from a b c d e f g i show ?thesis by blast
qed

text \<open>
  Claim C8 on the machine whose audio service is down: ten probes and ten sleeps of
  half a second, then exit code 1; and on the machine whose service answers the first
  probe: one probe and no sleep.
\<close>

theorem wait_is_bounded_witness:
  "count_list (fst (wait_for_pipewire [] (probes sigterm_while_waiting_env) 10 (1 / 2)))
      (Popen ''pw-dump 2>&1'') \<le> 10
   \<and> \<not> snd (wait_for_pipewire [] (probes sigterm_while_waiting_env) 10 (1 / 2))
   \<and> snd (init_VAC sigterm_while_waiting_env) = Inl (Exited 1)
   \<and> snd (init_VAC_allsound sigterm_while_waiting_env) = Inl (Exited 1)
   \<and> count_list (fst (init_VAC sigterm_while_waiting_env)) (Popen ''pw-dump 2>&1'') = 10
   \<and> count_list (fst (init_VAC sigterm_while_waiting_env)) (Sleep (1 / 2)) = 10
   \<and> wait_for_pipewire [] (probes example_env) 10 (1 / 2) = ([Popen ''pw-dump 2>&1''], True)"
proof -
  have h: "Popen ''pw-dump 2>&1'' \<notin> set []" "\<forall>x. Sleep x \<notin> set []"
    by simp_all
  have never: "\<forall>k<10. \<not> answers (probes sigterm_while_waiting_env k)"
    by (simp add: sigterm_while_waiting_env_def refused)
  have at_once: "(0::nat) < 10 \<and> answers (probes example_env 0)
      \<and> (\<forall>j<0. \<not> answers (probes example_env j))"
    by (simp add: example_env_def answered)
  from wait_is_bounded[OF h, where p = "probes sigterm_while_waiting_env" and n = 10
      and d = "1 / 2" and E = sigterm_while_waiting_env and k = 0] never
  have down: "count_list (fst (wait_for_pipewire [] (probes sigterm_while_waiting_env) 10 (1 / 2)))
      (Popen ''pw-dump 2>&1'') \<le> 10
   \<and> \<not> snd (wait_for_pipewire [] (probes sigterm_while_waiting_env) 10 (1 / 2))
   \<and> snd (init_VAC sigterm_while_waiting_env) = Inl (Exited 1)
   \<and> snd (init_VAC_allsound sigterm_while_waiting_env) = Inl (Exited 1)
   \<and> count_list (fst (init_VAC sigterm_while_waiting_env)) (Popen ''pw-dump 2>&1'') = 10
   \<and> count_list (fst (init_VAC sigterm_while_waiting_env)) (Sleep (1 / 2)) = 10"
    by blast
  from wait_is_bounded[OF h, where p = "probes example_env" and n = 10 and d = "1 / 2"
      and k = 0 and E = example_env] at_once
  have "wait_for_pipewire [] (probes example_env) 10 (1 / 2) =
      (concat (map (\<lambda>a. Popen ''pw-dump 2>&1'' # (if probes example_env a = ProbeSigterm
          then [] else []) @ [Sleep (1 / 2)]) [0..<0]) @ [Popen ''pw-dump 2>&1''], True)"
    by blast
  then have "wait_for_pipewire [] (probes example_env) 10 (1 / 2) =
      ([Popen ''pw-dump 2>&1''], True)"
    by simp
  with down show ?thesis by blast
qed

section \<open>The runs of the examples\<close>

lemma upt_10: "[0..<10] = [0, 1, 2, 3, 4, 5, 6, 7, 8, 9 :: nat]"
  by (simp add: upt_rec)

lemma example_line_split:
  "py_split CHR 0x0A object_line = [object_line]"
  by (simp add: object_line_def)

lemma example_line_node_name:
  "sublist ''node.name'' object_line"
  by (simp add: object_line_def sublist_Cons_right)

lemma status_texts_differ:
  "status_before \<noteq> status_after"
  by (simp add: status_before_def status_after_def)

lemma init_usb_example:
  "init_usb die False [arctis_headset] =
     ([DetachKernelDriver 5], Inr \<lparr>dev = arctis_headset, interface_num = 5, addr = 0x87\<rparr>)"
  by (simp add: init_usb_def identify_device_def usb_core_find_def select_endpoint_def
      arctis_headset_def dial_interfaces_def nth_append)

lemma wait_example:
  "wait_for_pipewire h (probes example_env) 10 (1 / 2) = ([Popen ''pw-dump 2>&1''], True)"
  by (simp add: wait_for_pipewire_def upt_10 example_env_def answered)

lemma wait_sigterm:
  "wait_for_pipewire h (probes sigterm_while_waiting_env) 10 (1 / 2) =
     (Popen ''pw-dump 2>&1'' # h @
      [Sleep (1 / 2),
       Popen ''pw-dump 2>&1'', Sleep (1 / 2), Popen ''pw-dump 2>&1'', Sleep (1 / 2),
       Popen ''pw-dump 2>&1'', Sleep (1 / 2), Popen ''pw-dump 2>&1'', Sleep (1 / 2),
       Popen ''pw-dump 2>&1'', Sleep (1 / 2), Popen ''pw-dump 2>&1'', Sleep (1 / 2),
       Popen ''pw-dump 2>&1'', Sleep (1 / 2), Popen ''pw-dump 2>&1'', Sleep (1 / 2),
       Popen ''pw-dump 2>&1'', Sleep (1 / 2)], False)"
  by (simp add: wait_for_pipewire_def upt_10 sigterm_while_waiting_env_def example_env_def refused)

lemma capture_example:
  "capture_default example_env fresh_self =
     ([Popen ''pw-dump 2>&1'', Popen ''wpctl status''],
      \<lparr>system_default_sink = Some ''speakers'', system_default_sink_id = Some ''45'',
       arctis_game_id = None, arctis_chat_id = None\<rparr>)"
  by (simp add: capture_default_def default_sink_name_def example_env_def Let_def fresh_self_def)

lemma link_target_example:
  "link_target example_env s = ''Arctis_7''"
  by (simp add: link_target_def example_env_def example_line_split example_line_node_name)

lemma provision_example:
  \<open>provision example_env =
     ([Popen ''pw-dump 2>&1'',
       Popen ''wpctl status'',
       Popen (''pw-cli list-objects 2>/dev/null | grep -A 20 'type PipeWire:Interface:Node'' @ [CHR 0x27]),
       System ''pw-cli destroy Arctis_Game 2>/dev/null'',
       System ''pw-cli destroy Arctis_Chat 2>/dev/null'',
       CreateNode ''Arctis_Game'' ''Arctis 7+ Game'',
       CreateNode ''Arctis_Chat'' ''Arctis 7+ Chat'',
       Sleep (1 / 2),
       PwLink ''Arctis_Game:monitor_FL'' ''Arctis_7:playback_FL'',
       PwLink ''Arctis_Game:monitor_FR'' ''Arctis_7:playback_FR'',
       PwLink ''Arctis_Chat:monitor_FL'' ''Arctis_7:playback_FL'',
       PwLink ''Arctis_Chat:monitor_FR'' ''Arctis_7:playback_FR'',
       Popen ''wpctl status'',
       System ''wpctl set-default 61''],
      Inr example_self)\<close>
proof -
  have flags: "create_raises example_env = False" "link_raises example_env = False"
    "re_search example_env = example_search" "wpctl_status_after_create example_env = status_after"
    by (simp_all add: example_env_def)
  show ?thesis
    by (simp add: provision_def Let_def capture_example link_target_example flags
        link_monitors_def resolve_ids_def example_self_def)
qed

lemma init_example:
  \<open>init example_env =
     ([DetachKernelDriver 5,
       Popen ''pw-dump 2>&1'',
       Popen ''pw-dump 2>&1'',
       Popen ''wpctl status'',
       Popen (''pw-cli list-objects 2>/dev/null | grep -A 20 'type PipeWire:Interface:Node'' @ [CHR 0x27]),
       System ''pw-cli destroy Arctis_Game 2>/dev/null'',
       System ''pw-cli destroy Arctis_Chat 2>/dev/null'',
       CreateNode ''Arctis_Game'' ''Arctis 7+ Game'',
       CreateNode ''Arctis_Chat'' ''Arctis 7+ Chat'',
       Sleep (1 / 2),
       PwLink ''Arctis_Game:monitor_FL'' ''Arctis_7:playback_FL'',
       PwLink ''Arctis_Game:monitor_FR'' ''Arctis_7:playback_FR'',
       PwLink ''Arctis_Chat:monitor_FL'' ''Arctis_7:playback_FL'',
       PwLink ''Arctis_Chat:monitor_FR'' ''Arctis_7:playback_FR'',
       Popen ''wpctl status'',
       System ''wpctl set-default 61''],
      Inr example_self)\<close>
proof -
  have devs: "usb_devices example_env = [arctis_headset]"
    and ok: "usb_find_raises example_env = False"
    by (simp_all add: example_env_def)
  show ?thesis
    by (simp add: init_def devs ok init_usb_example init_VAC_def Let_def wait_example
        provision_example)
qed

section \<open>Teardown and the ways a run ends\<close>

text \<open>
  Claim C2, evaluated where the code breaks it. The audio service is down and
  SIGTERM arrives during the first attempt of the wait: the handler runs
  \<^verbatim>\<open>die_gracefully\<close>, the \<^verbatim>\<open>except:\<close> clause of \<^verbatim>\<open>wait_for_pipewire\<close> swallows its
  \<^verbatim>\<open>SystemExit\<close>, the wait goes on, and after the tenth attempt \<^verbatim>\<open>_init_VAC\<close> runs
  \<^verbatim>\<open>die_gracefully\<close> again. Both destroy commands of teardown are issued twice.
\<close>

theorem teardown_runs_twice:
  "main sigterm_while_waiting_env =
     ([DetachKernelDriver 5,
       Popen ''pw-dump 2>&1'',
       System ''pw-cli destroy Arctis_Game 1>/dev/null'',
       System ''pw-cli destroy Arctis_Chat 1>/dev/null'',
       Sleep (1 / 2),
       Popen ''pw-dump 2>&1'', Sleep (1 / 2), Popen ''pw-dump 2>&1'', Sleep (1 / 2),
       Popen ''pw-dump 2>&1'', Sleep (1 / 2), Popen ''pw-dump 2>&1'', Sleep (1 / 2),
       Popen ''pw-dump 2>&1'', Sleep (1 / 2), Popen ''pw-dump 2>&1'', Sleep (1 / 2),
       Popen ''pw-dump 2>&1'', Sleep (1 / 2), Popen ''pw-dump 2>&1'', Sleep (1 / 2),
       Popen ''pw-dump 2>&1'', Sleep (1 / 2),
       System ''pw-cli destroy Arctis_Game 1>/dev/null'',
       System ''pw-cli destroy Arctis_Chat 1>/dev/null'',
       LogFatal ''Failure reason: PipeWire not available''],
      Exited 1)"
proof -
  have devs: "usb_devices sigterm_while_waiting_env = [arctis_headset]"
    and ok: "usb_find_raises sigterm_while_waiting_env = False"
    by (simp_all add: sigterm_while_waiting_env_def example_env_def)
  show ?thesis
    by (simp add: main_def init_def devs ok init_usb_example init_VAC_def Let_def
        wait_sigterm fresh_teardown)
qed

lemma modulator_loop_until_usb_error:
  assumes "\<forall>r\<in>set rs. r = USBTimeoutError \<or> (\<exists>bs. r = Report bs \<and> 3 \<le> length bs)"
  shows "snd (modulator_loop h s prev (rs @ USBError # rest)) = Returned
     \<and> (\<exists>ev'. concat (fst (modulator_loop h s prev (rs @ USBError # rest))) =
            ev' @ [LogFatal ''USB input/output error - likely disconnect'']
          \<and> list_all is_set_volume ev')"
  using assms
proof (induction rs arbitrary: prev)
  case Nil
  then show ?case by simp
next
  case (Cons r rs)
  then have wf: "\<forall>r\<in>set rs. r = USBTimeoutError \<or> (\<exists>bs. r = Report bs \<and> 3 \<le> length bs)"
    by simp
  from Cons.prems consider "r = USBTimeoutError" | bs where "r = Report bs" "3 \<le> length bs"
    by auto
  then show ?case
  proof cases
    case 1
    with Cons.IH[OF wf, of prev] show ?thesis
      by (simp add: case_prod_beta)
  next
    case 2
    show ?thesis
    proof (cases "Some (bs ! 1) \<noteq> fst prev \<or> Some (bs ! 2) \<noteq> snd prev")
      case True
      from Cons.IH[OF wf, of "(Some (bs ! 1), Some (bs ! 2))"]
      obtain ev' where out: "snd (modulator_loop h s (Some (bs ! 1), Some (bs ! 2))
            (rs @ USBError # rest)) = Returned"
        and ev: "concat (fst (modulator_loop h s (Some (bs ! 1), Some (bs ! 2))
            (rs @ USBError # rest))) = ev' @ [LogFatal ''USB input/output error - likely disconnect'']"
        and sv: "list_all is_set_volume ev'"
        by blast
      have "list_all is_set_volume (set_volumes (arctis_game_id s) (arctis_chat_id s) (bs ! 1) (bs ! 2) @ ev')"
        using sv by (simp add: set_volumes_unfold)
      with 2 True out ev show ?thesis
        by (auto simp: Let_def case_prod_beta
            intro!: exI[of _ "set_volumes (arctis_game_id s) (arctis_chat_id s) (bs ! 1) (bs ! 2) @ ev'"])
    next
      case False
      with 2 Cons.IH[OF wf, of prev] show ?thesis
        by (auto simp: Let_def case_prod_beta)
    qed
  qed
qed

text \<open>
  Claim C1, evaluated where the code breaks it. After a provisioning that succeeded
  with the events \<open>ev\<close>, a USB error other than a timeout ends the loop by
  \<^verbatim>\<open>break\<close>; \<^verbatim>\<open>start_modulator_signal\<close> returns and the main block ends. The run
  ends with status 0, and after \<open>ev\<close> its events are volume-set commands and the
  fatal log record only: \<^verbatim>\<open>die_gracefully\<close> does not run and no destroy command is
  issued.
\<close>

theorem usb_error_ends_run_without_teardown:
  assumes "init E = (ev, Inr s)"
    and "usb_reads E = rs @ USBError # rest"
    and "\<forall>r\<in>set rs. r = USBTimeoutError \<or> (\<exists>bs. r = Report bs \<and> 3 \<le> length bs)"
  shows "snd (main E) = Returned
     \<and> exit_status (snd (main E)) = Some 0
     \<and> (\<exists>ev'. fst (main E) = ev @ ev' @ [LogFatal ''USB input/output error - likely disconnect'']
          \<and> list_all is_set_volume ev')"
proof -
  from modulator_loop_until_usb_error[OF assms(3),
      of "die_gracefully (re_search E) (wpctl_status_at_teardown E) s False None" s "(None, None)" rest]
  obtain ev' where out: "snd (modulator_loop
        (die_gracefully (re_search E) (wpctl_status_at_teardown E) s False None) s (None, None)
        (rs @ USBError # rest)) = Returned"
    and ev: "concat (fst (modulator_loop
        (die_gracefully (re_search E) (wpctl_status_at_teardown E) s False None) s (None, None)
        (rs @ USBError # rest))) = ev' @ [LogFatal ''USB input/output error - likely disconnect'']"
    and sv: "list_all is_set_volume ev'"
    by blast
  from out ev sv show ?thesis
    by (simp add: main_def assms(1,2) start_modulator_signal_def case_prod_beta)
qed

text \<open>
  Claim C1 on the example run, in which the headset is unplugged after one report:
  both sinks were created, and neither destroy command of teardown is among the events.
\<close>

theorem usb_error_ends_run_without_teardown_witness:
  "snd (main example_env) = Returned
   \<and> fst (main example_env) =
       fst (init example_env) @
       [SetVolume ''61'' (1 / 2), SetVolume ''62'' (1 / 2),
        LogFatal ''USB input/output error - likely disconnect'']
   \<and> CreateNode ''Arctis_Game'' ''Arctis 7+ Game'' \<in> set (fst (main example_env))
   \<and> CreateNode ''Arctis_Chat'' ''Arctis 7+ Chat'' \<in> set (fst (main example_env))
   \<and> System ''pw-cli destroy Arctis_Game 1>/dev/null'' \<notin> set (fst (main example_env))
   \<and> System ''pw-cli destroy Arctis_Chat 1>/dev/null'' \<notin> set (fst (main example_env))"
proof -
  have reads: "usb_reads example_env = [Report [0, 50, 50]] @ USBError # []"
    by (simp add: example_env_def)
  have wf: "\<forall>r\<in>set [Report [0, 50, 50 :: byte]].
      r = USBTimeoutError \<or> (\<exists>bs. r = Report bs \<and> 3 \<le> length bs)"
    by simp
  have tr: "fst (main example_env) =
       fst (init example_env) @
       [SetVolume ''61'' (1 / 2), SetVolume ''62'' (1 / 2),
        LogFatal ''USB input/output error - likely disconnect'']"
    by (simp add: main_def init_example start_modulator_signal_def reads
        example_self_def set_volumes_unfold)
  from usb_error_ends_run_without_teardown[OF init_example reads wf]
  have "snd (main example_env) = Returned"
    by blast
  with tr show ?thesis
    by (simp add: init_example)
qed

section \<open>Device selection\<close>

lemma usb_core_find_None:
  "usb_core_find devices v p = None \<longleftrightarrow> \<not> (\<exists>d\<in>set devices. idVendor d = v \<and> idProduct d = p)"
  by (auto simp: usb_core_find_def find_None_iff)

lemma usb_core_find_Some:
  "usb_core_find devices v p = Some d \<Longrightarrow> d \<in> set devices \<and> idVendor d = v \<and> idProduct d = p"
  by (auto simp: usb_core_find_def find_Some_iff)

lemma find_cong_set:
  "(\<And>x. x \<in> set xs \<Longrightarrow> P x = Q x) \<Longrightarrow> List.find P xs = List.find Q xs"
  by (induction xs) auto

text \<open>
  Claim C5, as amended. The two known identities are searched in their order: when
  a device with product 0x220e is attached, the first such device of the enumeration is
  selected, whatever precedes it; otherwise the first device of the enumeration that
  matches a known pair. No device is selected exactly when none matches a known pair,
  and a run in which none matches (and the search itself does not raise) ends in
  \<^verbatim>\<open>__init__\<close> before any event: no command has been given to the audio service.
\<close>

theorem identify_device_precedence:
  "(identify_device devices = None \<longleftrightarrow> spec_first_known_device devices = None)
   \<and> (identify_device devices = Some d \<longrightarrow>
        d \<in> set devices \<and> idVendor d = 0x1038 \<and> (idProduct d = 0x220e \<or> idProduct d = 0x227a))
   \<and> ((\<exists>d\<in>set devices. idVendor d = 0x1038 \<and> idProduct d = 0x220e) \<longrightarrow>
        identify_device devices =
          List.find (\<lambda>d. idVendor d = 0x1038 \<and> idProduct d = 0x220e) devices)
   \<and> (\<not> (\<exists>d\<in>set devices. idVendor d = 0x1038 \<and> idProduct d = 0x220e) \<longrightarrow>
        identify_device devices = spec_first_known_device devices)
   \<and> (\<not> usb_find_raises E \<and> spec_first_known_device (usb_devices E) = None \<longrightarrow>
        (\<exists>out. init E = ([], Inl out)) \<and> (\<exists>out. init_allsound E = ([], Inl out)))"
proof -
  have spec_None: "spec_first_known_device ds = None \<longleftrightarrow>
      \<not> (\<exists>d\<in>set ds. idVendor d = 0x1038 \<and> (idProduct d = 0x220e \<or> idProduct d = 0x227a))" for ds
    by (auto simp: spec_first_known_device_def known_pairs_def find_None_iff)
  have a: "identify_device devices = None \<longleftrightarrow> spec_first_known_device devices = None"
    by (auto simp: identify_device_def spec_None usb_core_find_None split: option.splits
        dest: usb_core_find_Some)
  have b: "identify_device devices = Some d \<longrightarrow>
        d \<in> set devices \<and> idVendor d = 0x1038 \<and> (idProduct d = 0x220e \<or> idProduct d = 0x227a)"
    by (auto simp: identify_device_def split: option.splits dest: usb_core_find_Some)
  have c: "(\<exists>d\<in>set devices. idVendor d = 0x1038 \<and> idProduct d = 0x220e) \<longrightarrow>
        identify_device devices =
          List.find (\<lambda>d. idVendor d = 0x1038 \<and> idProduct d = 0x220e) devices"
    by (auto simp: identify_device_def usb_core_find_def find_None_iff split: option.splits)
  have d: "\<not> (\<exists>d\<in>set devices. idVendor d = 0x1038 \<and> idProduct d = 0x220e) \<longrightarrow>
        identify_device devices = spec_first_known_device devices"
  proof
    assume no: "\<not> (\<exists>d\<in>set devices. idVendor d = 0x1038 \<and> idProduct d = 0x220e)"
    then have "usb_core_find devices 0x1038 0x220e = None"
      by (simp add: usb_core_find_None)
    moreover have "usb_core_find devices 0x1038 0x227a = spec_first_known_device devices"
      unfolding usb_core_find_def spec_first_known_device_def
      using no by (intro find_cong_set) (auto simp: known_pairs_def)
    ultimately show "identify_device devices = spec_first_known_device devices"
      by (simp add: identify_device_def)
  qed
  have e: "\<not> usb_find_raises E \<and> spec_first_known_device (usb_devices E) = None \<longrightarrow>
        (\<exists>out. init E = ([], Inl out)) \<and> (\<exists>out. init_allsound E = ([], Inl out))"
  proof
    assume h: "\<not> usb_find_raises E \<and> spec_first_known_device (usb_devices E) = None"
    then have "identify_device (usb_devices E) = None"
      by (auto simp: identify_device_def spec_None usb_core_find_None split: option.splits
          dest: usb_core_find_Some)
    with h show "(\<exists>out. init E = ([], Inl out)) \<and> (\<exists>out. init_allsound E = ([], Inl out))"
      by (simp add: init_def init_allsound_def init_usb_def select_endpoint_def)
  qed
  from a b c d e show ?thesis by blast
qed

text \<open>
  The amended claim on a Nova 7 enumerated before an Arctis 7+, on a Nova 7 alone,
  and on a machine without headset.
\<close>

theorem identify_device_precedence_witness:
  "identify_device [nova_headset, arctis_headset] = Some arctis_headset
   \<and> arctis_headset \<in> set [nova_headset, arctis_headset]
   \<and> identify_device [nova_headset] = spec_first_known_device [nova_headset]
   \<and> (\<exists>out. init (example_env\<lparr>usb_devices := []\<rparr>) = ([], Inl out))"
proof -
  have sel: "identify_device [nova_headset, arctis_headset] = Some arctis_headset"
    by (simp add: identify_device_def usb_core_find_def nova_headset_def arctis_headset_def)
  have only_nova: "\<not> (\<exists>d\<in>set [nova_headset]. idVendor d = 0x1038 \<and> idProduct d = 0x220e)"
    by (simp add: nova_headset_def)
  have none: "\<not> usb_find_raises (example_env\<lparr>usb_devices := []\<rparr>)
      \<and> spec_first_known_device (usb_devices (example_env\<lparr>usb_devices := []\<rparr>)) = None"
    by (simp add: example_env_def spec_first_known_device_def)
  from identify_device_precedence[of "[nova_headset, arctis_headset]" arctis_headset example_env]
       identify_device_precedence[of "[nova_headset]" arctis_headset
         "example_env\<lparr>usb_devices := []\<rparr>"]
       sel only_nova none
  show ?thesis by blast
qed

text \<open>
  Claim C5 as stated fails: with a Nova 7 enumerated before an Arctis 7+, the first
  enumerated device that matches a known pair is the Nova 7, and the program selects
  the Arctis 7+.
\<close>

theorem identify_device_counterexample:
  "identify_device [nova_headset, arctis_headset] = Some arctis_headset
   \<and> spec_first_known_device [nova_headset, arctis_headset] = Some nova_headset
   \<and> idProduct nova_headset \<noteq> idProduct arctis_headset"
  by (simp add: identify_device_def usb_core_find_def spec_first_known_device_def
      known_pairs_def nova_headset_def arctis_headset_def)

section \<open>The links of the monitors\<close>

lemma filter_is_link_capture:
  "filter is_link (fst (capture_default E s)) = []"
  by (simp add: capture_default_def default_sink_name_def Let_def split: option.splits)

lemma filter_is_link_capture_allsound:
  "filter is_link (fst (capture_default_allsound E s)) = []"
  by (simp add: capture_default_allsound_def default_sink_name_def Let_def split: option.splits)

text \<open>
  Claim C6, as amended. A provisioning that succeeds issues exactly four
  \<^verbatim>\<open>pw-link\<close> commands, from the left and right monitor of the Game and of the Chat
  sink to the left and right playback port of one target. In
  \<^verbatim>\<open>Arctis_7_Plus_ChatMix.py\<close> the target is the headset's own sink when the object
  listing names one, and the default sink captured before otherwise; in
  \<^verbatim>\<open>AllSound7P_ChatMix.py\<close> it is always the default sink captured before.
\<close>

theorem links_target:
  "(provision E = (ev, Inr s) \<longrightarrow>
      filter is_link ev =
        [PwLink ''Arctis_Game:monitor_FL'' (link_target E s @ '':playback_FL''),
         PwLink ''Arctis_Game:monitor_FR'' (link_target E s @ '':playback_FR''),
         PwLink ''Arctis_Chat:monitor_FL'' (link_target E s @ '':playback_FL''),
         PwLink ''Arctis_Chat:monitor_FR'' (link_target E s @ '':playback_FR'')]
      \<and> link_target E s =
          (case find_arctis_device (re_search E) (py_split CHR 0x0A (pw_cli_list_objects E)) of
             Some name \<Rightarrow> if name = [] then the (system_default_sink s) else name
           | None \<Rightarrow> the (system_default_sink s))
      \<and> system_default_sink s = system_default_sink (snd (capture_default E fresh_self)))
   \<and> (provision_allsound E = (ev', Inr s') \<longrightarrow>
      filter is_link ev' =
        [PwLink ''ChatMix_Game:monitor_FL'' (the (system_default_sink_allsound s') @ '':playback_FL''),
         PwLink ''ChatMix_Game:monitor_FR'' (the (system_default_sink_allsound s') @ '':playback_FR''),
         PwLink ''ChatMix_Chat:monitor_FL'' (the (system_default_sink_allsound s') @ '':playback_FL''),
         PwLink ''ChatMix_Chat:monitor_FR'' (the (system_default_sink_allsound s') @ '':playback_FR'')]
      \<and> system_default_sink_allsound s' =
          system_default_sink_allsound (snd (capture_default_allsound E fresh_self_allsound)))"
proof -
  have a: "filter is_link ev =
        [PwLink ''Arctis_Game:monitor_FL'' (link_target E s @ '':playback_FL''),
         PwLink ''Arctis_Game:monitor_FR'' (link_target E s @ '':playback_FR''),
         PwLink ''Arctis_Chat:monitor_FL'' (link_target E s @ '':playback_FL''),
         PwLink ''Arctis_Chat:monitor_FR'' (link_target E s @ '':playback_FR'')]
      \<and> system_default_sink s = system_default_sink (snd (capture_default E fresh_self))"
    if p: "provision E = (ev, Inr s)"
  proof -
    from p have ok: "\<not> create_raises E" "\<not> link_raises E"
      by (auto simp: provision_def Let_def split: if_splits)
    from p ok have s: "s = snd (resolve_ids E (snd (capture_default E fresh_self)))"
      and ev: "ev = (fst (capture_default E fresh_self) @
            [Popen (''pw-cli list-objects 2>/dev/null | grep -A 20 'type PipeWire:Interface:Node'' @ [CHR 0x27]),
             System ''pw-cli destroy Arctis_Game 2>/dev/null'',
             System ''pw-cli destroy Arctis_Chat 2>/dev/null''] @
            [CreateNode ''Arctis_Game'' ''Arctis 7+ Game'',
             CreateNode ''Arctis_Chat'' ''Arctis 7+ Chat'',
             Sleep (1 / 2)])
          @ link_monitors ''Arctis_Game'' ''Arctis_Chat''
              (link_target E (snd (capture_default E fresh_self)))
          @ fst (resolve_ids E (snd (capture_default E fresh_self)))"
      by (simp_all add: provision_def Let_def)
    have sink: "system_default_sink s = system_default_sink (snd (capture_default E fresh_self))"
      by (simp add: s resolve_ids_def Let_def)
    have tgt: "link_target E s = link_target E (snd (capture_default E fresh_self))"
      by (simp add: link_target_def Let_def sink)
    have res: "filter is_link (fst (resolve_ids E (snd (capture_default E fresh_self)))) = []"
      by (simp add: resolve_ids_def Let_def split: option.splits)
    show ?thesis
      by (simp add: ev filter_is_link_capture res tgt sink link_monitors_def)
  qed
  have b: "link_target E s =
          (case find_arctis_device (re_search E) (py_split CHR 0x0A (pw_cli_list_objects E)) of
             Some name \<Rightarrow> if name = [] then the (system_default_sink s) else name
           | None \<Rightarrow> the (system_default_sink s))"
    by (simp add: link_target_def Let_def split: option.splits)
  have c: "filter is_link ev' =
        [PwLink ''ChatMix_Game:monitor_FL'' (the (system_default_sink_allsound s') @ '':playback_FL''),
         PwLink ''ChatMix_Game:monitor_FR'' (the (system_default_sink_allsound s') @ '':playback_FR''),
         PwLink ''ChatMix_Chat:monitor_FL'' (the (system_default_sink_allsound s') @ '':playback_FL''),
         PwLink ''ChatMix_Chat:monitor_FR'' (the (system_default_sink_allsound s') @ '':playback_FR'')]
      \<and> system_default_sink_allsound s' =
          system_default_sink_allsound (snd (capture_default_allsound E fresh_self_allsound))"
    if p: "provision_allsound E = (ev', Inr s')"
  proof -
    from p have ok: "\<not> create_raises E" "\<not> link_raises E"
      by (auto simp: provision_allsound_def Let_def split: if_splits)
    from p ok have s: "s' = snd (resolve_ids_allsound E
          (snd (capture_default_allsound E fresh_self_allsound)))"
      and ev: "ev' = (fst (capture_default_allsound E fresh_self_allsound) @
            [System ''pw-cli destroy ChatMix_Game 2>/dev/null'',
             System ''pw-cli destroy ChatMix_Chat 2>/dev/null''] @
            [CreateNode ''ChatMix_Game'' ''ChatMix Game'',
             CreateNode ''ChatMix_Chat'' ''ChatMix Chat'',
             Sleep (1 / 2)])
          @ link_monitors ''ChatMix_Game'' ''ChatMix_Chat''
              (the (system_default_sink_allsound
                 (snd (capture_default_allsound E fresh_self_allsound))))
          @ fst (resolve_ids_allsound E (snd (capture_default_allsound E fresh_self_allsound)))"
      by (simp_all add: provision_allsound_def Let_def)
    have sink: "system_default_sink_allsound s' =
        system_default_sink_allsound (snd (capture_default_allsound E fresh_self_allsound))"
      by (simp add: s resolve_ids_allsound_def Let_def)
    have res: "filter is_link (fst (resolve_ids_allsound E
          (snd (capture_default_allsound E fresh_self_allsound)))) = []"
      by (simp add: resolve_ids_allsound_def Let_def)
    show ?thesis
      by (simp add: ev filter_is_link_capture_allsound res sink link_monitors_def)
  qed
  from a b c show ?thesis by blast
qed

text \<open>
  The amended claim on the example run, whose default sink is \<^verbatim>\<open>speakers\<close> and whose
  object listing names the headset's sink \<^verbatim>\<open>Arctis_7\<close>.
\<close>

theorem links_target_witness:
  "filter is_link (fst (provision example_env)) =
       [PwLink ''Arctis_Game:monitor_FL'' ''Arctis_7:playback_FL'',
        PwLink ''Arctis_Game:monitor_FR'' ''Arctis_7:playback_FR'',
        PwLink ''Arctis_Chat:monitor_FL'' ''Arctis_7:playback_FL'',
        PwLink ''Arctis_Chat:monitor_FR'' ''Arctis_7:playback_FR'']
   \<and> filter is_link (fst (provision_allsound example_env)) =
       [PwLink ''ChatMix_Game:monitor_FL'' ''speakers:playback_FL'',
        PwLink ''ChatMix_Game:monitor_FR'' ''speakers:playback_FR'',
        PwLink ''ChatMix_Chat:monitor_FL'' ''speakers:playback_FL'',
        PwLink ''ChatMix_Chat:monitor_FR'' ''speakers:playback_FR'']"
proof -
  have p: "provision example_env = (fst (provision example_env), Inr example_self)"
    by (simp add: provision_example)
  have cap: "capture_default_allsound example_env fresh_self_allsound =
      ([Popen ''pw-dump 2>&1''],
       \<lparr>system_default_sink_allsound = Some ''speakers'', chatmix_game_id = None,
        chatmix_chat_id = None\<rparr>)"
    by (simp add: capture_default_allsound_def default_sink_name_def example_env_def Let_def
        fresh_self_allsound_def)
  have flags: "create_raises example_env = False" "link_raises example_env = False"
    "re_search example_env = example_search" "wpctl_status_after_create example_env = status_after"
    by (simp_all add: example_env_def)
  have p': "provision_allsound example_env =
      (fst (provision_allsound example_env),
       Inr \<lparr>system_default_sink_allsound = Some ''speakers'', chatmix_game_id = Some ''71'',
            chatmix_chat_id = Some ''72''\<rparr>)"
    by (simp add: provision_allsound_def Let_def cap flags resolve_ids_allsound_def)
  from links_target[of example_env "fst (provision example_env)" example_self
      "fst (provision_allsound example_env)"
      "\<lparr>system_default_sink_allsound = Some ''speakers'', chatmix_game_id = Some ''71'',
            chatmix_chat_id = Some ''72''\<rparr>"] p p'
  show ?thesis
    by (simp add: link_target_example)
qed

text \<open>
  Claim C6 as stated fails: in the example run the default sink captured is
  \<^verbatim>\<open>speakers\<close>, and all four links of \<^verbatim>\<open>Arctis_7_Plus_ChatMix.py\<close> go to the
  playback ports of \<^verbatim>\<open>Arctis_7\<close>.
\<close>

theorem links_target_counterexample:
  "snd (provision example_env) = Inr example_self
   \<and> system_default_sink example_self = Some ''speakers''
   \<and> filter is_link (fst (provision example_env)) =
       [PwLink ''Arctis_Game:monitor_FL'' ''Arctis_7:playback_FL'',
        PwLink ''Arctis_Game:monitor_FR'' ''Arctis_7:playback_FR'',
        PwLink ''Arctis_Chat:monitor_FL'' ''Arctis_7:playback_FL'',
        PwLink ''Arctis_Chat:monitor_FR'' ''Arctis_7:playback_FR'']
   \<and> PwLink ''Arctis_Game:monitor_FL'' ''speakers:playback_FL'' \<notin> set (fst (provision example_env))"
  by (simp add: provision_example example_self_def)

section \<open>A creation that fails\<close>

lemma parts_ignore_status:
  "default_sink_name (E\<lparr>create_game_status := a, create_chat_status := b\<rparr>) pw_data
     = default_sink_name E pw_data"
  "link_target (E\<lparr>create_game_status := a, create_chat_status := b\<rparr>) s = link_target E s"
  "resolve_ids (E\<lparr>create_game_status := a, create_chat_status := b\<rparr>) s = resolve_ids E s"
  "resolve_ids_allsound (E\<lparr>create_game_status := a, create_chat_status := b\<rparr>) s'
     = resolve_ids_allsound E s'"
  by (simp_all add: default_sink_name_def link_target_def resolve_ids_def resolve_ids_allsound_def
      Let_def)

lemma capture_ignores_status:
  "capture_default (E\<lparr>create_game_status := a, create_chat_status := b\<rparr>) s
     = capture_default E s"
  "capture_default_allsound (E\<lparr>create_game_status := a, create_chat_status := b\<rparr>) s'
     = capture_default_allsound E s'"
  by (simp_all add: capture_default_def capture_default_allsound_def parts_ignore_status
      Let_def split: option.splits)

lemma provision_ignores_status:
  "provision (E\<lparr>create_game_status := a, create_chat_status := b\<rparr>) = provision E"
  by (simp add: provision_def capture_ignores_status parts_ignore_status Let_def)

lemma provision_allsound_ignores_status:
  "provision_allsound (E\<lparr>create_game_status := a, create_chat_status := b\<rparr>)
     = provision_allsound E"
  by (simp add: provision_allsound_def capture_ignores_status parts_ignore_status Let_def)

lemma init_VAC_ignores_status:
  "init_VAC (E\<lparr>create_game_status := a, create_chat_status := b\<rparr>) = init_VAC E"
  "init_VAC_allsound (E\<lparr>create_game_status := a, create_chat_status := b\<rparr>)
     = init_VAC_allsound E"
  by (simp_all add: init_VAC_def init_VAC_allsound_def provision_ignores_status
      provision_allsound_ignores_status Let_def)

lemma init_ignores_status:
  "init (E\<lparr>create_game_status := a, create_chat_status := b\<rparr>) = init E"
  "init_allsound (E\<lparr>create_game_status := a, create_chat_status := b\<rparr>) = init_allsound E"
  by (simp_all add: init_def init_allsound_def init_VAC_ignores_status
      split: prod.splits sum.splits)

lemma no_fatal_capture:
  "LogFatal r \<notin> set (fst (capture_default E s))"
  "LogFatal r \<notin> set (fst (resolve_ids E s))"
  "LogFatal r \<notin> set (fst (capture_default_allsound E s'))"
  "LogFatal r \<notin> set (fst (resolve_ids_allsound E s'))"
  by (simp_all add: capture_default_def capture_default_allsound_def default_sink_name_def
      resolve_ids_def resolve_ids_allsound_def Let_def split: option.splits)

text \<open>
  Claim C4, evaluated where the code breaks it. The statuses that \<^verbatim>\<open>os.system\<close>
  returns for the two \<^verbatim>\<open>pw-cli create-node\<close> commands change nothing in a run:
  the creating block assigns them to nothing. When no Python exception is raised,
  provisioning goes on after the two commands, whatever their statuses, with the sleep,
  the four links and the search for the identifiers, and returns; it logs no fatal
  record and \<^verbatim>\<open>die_gracefully\<close> does not run. Only an exception raised in the
  creating block reaches \<^verbatim>\<open>die_gracefully(sink_creation_fail=True, trigger="VAC node
  adapter")\<close>, exit code 1 and the logged reason.
\<close>

theorem failed_creation_goes_unnoticed:
  \<open>provision (E\<lparr>create_game_status := a, create_chat_status := b\<rparr>) = provision E
   \<and> provision_allsound (E\<lparr>create_game_status := a, create_chat_status := b\<rparr>)
       = provision_allsound E
   \<and> main (E\<lparr>create_game_status := a, create_chat_status := b\<rparr>) = main E
   \<and> main_allsound (E\<lparr>create_game_status := a, create_chat_status := b\<rparr>) = main_allsound E
   \<and> (\<not> create_raises E \<and> \<not> link_raises E \<longrightarrow>
        provision E =
          (fst (capture_default E fresh_self) @
           [Popen (''pw-cli list-objects 2>/dev/null | grep -A 20 'type PipeWire:Interface:Node'' @ [CHR 0x27]),
            System ''pw-cli destroy Arctis_Game 2>/dev/null'',
            System ''pw-cli destroy Arctis_Chat 2>/dev/null'',
            CreateNode ''Arctis_Game'' ''Arctis 7+ Game'',
            CreateNode ''Arctis_Chat'' ''Arctis 7+ Chat'',
            Sleep (1 / 2)] @
           link_monitors ''Arctis_Game'' ''Arctis_Chat''
             (link_target E (snd (capture_default E fresh_self))) @
           fst (resolve_ids E (snd (capture_default E fresh_self))),
           Inr (snd (resolve_ids E (snd (capture_default E fresh_self)))))
        \<and> (\<forall>r. LogFatal r \<notin> set (fst (provision E)))
        \<and> provision_allsound E =
          (fst (capture_default_allsound E fresh_self_allsound) @
           [System ''pw-cli destroy ChatMix_Game 2>/dev/null'',
            System ''pw-cli destroy ChatMix_Chat 2>/dev/null'',
            CreateNode ''ChatMix_Game'' ''ChatMix Game'',
            CreateNode ''ChatMix_Chat'' ''ChatMix Chat'',
            Sleep (1 / 2)] @
           link_monitors ''ChatMix_Game'' ''ChatMix_Chat''
             (the (system_default_sink_allsound
                (snd (capture_default_allsound E fresh_self_allsound)))) @
           fst (resolve_ids_allsound E (snd (capture_default_allsound E fresh_self_allsound))),
           Inr (snd (resolve_ids_allsound E
                  (snd (capture_default_allsound E fresh_self_allsound)))))
        \<and> (\<forall>r. LogFatal r \<notin> set (fst (provision_allsound E))))
   \<and> (create_raises E \<longrightarrow>
        snd (provision E) = Inl (Exited 1)
        \<and> last (fst (provision E)) = LogFatal ''Failure reason: VAC node adapter''
        \<and> snd (provision_allsound E) = Inl (Exited 1)
        \<and> last (fst (provision_allsound E)) = LogFatal ''Failure reason: VAC node adapter'')\<close>
proof -
  let ?E = "E\<lparr>create_game_status := a, create_chat_status := b\<rparr>"
  have m: "main ?E = main E"
    by (simp add: main_def init_ignores_status split: prod.splits sum.splits)
  have m': "main_allsound ?E = main_allsound E"
    by (simp add: main_allsound_def init_ignores_status split: prod.splits sum.splits)
  have ok: \<open>provision E =
          (fst (capture_default E fresh_self) @
           [Popen (''pw-cli list-objects 2>/dev/null | grep -A 20 'type PipeWire:Interface:Node'' @ [CHR 0x27]),
            System ''pw-cli destroy Arctis_Game 2>/dev/null'',
            System ''pw-cli destroy Arctis_Chat 2>/dev/null'',
            CreateNode ''Arctis_Game'' ''Arctis 7+ Game'',
            CreateNode ''Arctis_Chat'' ''Arctis 7+ Chat'',
            Sleep (1 / 2)] @
           link_monitors ''Arctis_Game'' ''Arctis_Chat''
             (link_target E (snd (capture_default E fresh_self))) @
           fst (resolve_ids E (snd (capture_default E fresh_self))),
           Inr (snd (resolve_ids E (snd (capture_default E fresh_self)))))
        \<and> (\<forall>r. LogFatal r \<notin> set (fst (provision E)))\<close>
    if "\<not> create_raises E \<and> \<not> link_raises E"
    using that by (simp add: provision_def Let_def no_fatal_capture link_monitors_def)
  have ok': "provision_allsound E =
          (fst (capture_default_allsound E fresh_self_allsound) @
           [System ''pw-cli destroy ChatMix_Game 2>/dev/null'',
            System ''pw-cli destroy ChatMix_Chat 2>/dev/null'',
            CreateNode ''ChatMix_Game'' ''ChatMix Game'',
            CreateNode ''ChatMix_Chat'' ''ChatMix Chat'',
            Sleep (1 / 2)] @
           link_monitors ''ChatMix_Game'' ''ChatMix_Chat''
             (the (system_default_sink_allsound
                (snd (capture_default_allsound E fresh_self_allsound)))) @
           fst (resolve_ids_allsound E (snd (capture_default_allsound E fresh_self_allsound))),
           Inr (snd (resolve_ids_allsound E
                  (snd (capture_default_allsound E fresh_self_allsound)))))
        \<and> (\<forall>r. LogFatal r \<notin> set (fst (provision_allsound E)))"
    if "\<not> create_raises E \<and> \<not> link_raises E"
    using that by (simp add: provision_allsound_def Let_def no_fatal_capture link_monitors_def)
  have raised: "snd (provision E) = Inl (Exited 1)
        \<and> last (fst (provision E)) = LogFatal ''Failure reason: VAC node adapter''
        \<and> snd (provision_allsound E) = Inl (Exited 1)
        \<and> last (fst (provision_allsound E)) = LogFatal ''Failure reason: VAC node adapter''"
    if "create_raises E"
    using that
    by (simp add: provision_def provision_allsound_def Let_def die_gracefully_def
        die_gracefully_allsound_def)
  have p: "provision ?E = provision E" and p': "provision_allsound ?E = provision_allsound E"
    by (simp_all add: provision_ignores_status provision_allsound_ignores_status)
  from p p' m m' ok ok' raised show ?thesis by blast
qed

text \<open>
  Claim C4 on the machine whose audio service refuses both sinks: the two commands
  exit with status 256, the links are attempted all the same, and the run reaches the
  polling loop and stays there.
\<close>

theorem failed_creation_goes_unnoticed_witness:
  \<open>provision creation_fails_env =
     ([Popen ''pw-dump 2>&1'',
       Popen ''wpctl status'',
       Popen (''pw-cli list-objects 2>/dev/null | grep -A 20 'type PipeWire:Interface:Node'' @ [CHR 0x27]),
       System ''pw-cli destroy Arctis_Game 2>/dev/null'',
       System ''pw-cli destroy Arctis_Chat 2>/dev/null'',
       CreateNode ''Arctis_Game'' ''Arctis 7+ Game'',
       CreateNode ''Arctis_Chat'' ''Arctis 7+ Chat'',
       Sleep (1 / 2),
       PwLink ''Arctis_Game:monitor_FL'' ''Arctis_7:playback_FL'',
       PwLink ''Arctis_Game:monitor_FR'' ''Arctis_7:playback_FR'',
       PwLink ''Arctis_Chat:monitor_FL'' ''Arctis_7:playback_FL'',
       PwLink ''Arctis_Chat:monitor_FR'' ''Arctis_7:playback_FR'',
       Popen ''wpctl status''],
      Inr \<lparr>system_default_sink = Some ''speakers'', system_default_sink_id = Some ''45'',
           arctis_game_id = None, arctis_chat_id = None\<rparr>)
   \<and> create_game_status creation_fails_env = 256
   \<and> create_chat_status creation_fails_env = 256
   \<and> snd (main creation_fails_env) = Running\<close>
proof -
  have nr: "\<not> create_raises creation_fails_env \<and> \<not> link_raises creation_fails_env"
    by (simp add: creation_fails_env_def example_env_def)
  have cap: "capture_default creation_fails_env fresh_self =
     ([Popen ''pw-dump 2>&1'', Popen ''wpctl status''],
      \<lparr>system_default_sink = Some ''speakers'', system_default_sink_id = Some ''45'',
       arctis_game_id = None, arctis_chat_id = None\<rparr>)"
    by (simp add: capture_default_def default_sink_name_def creation_fails_env_def
        example_env_def Let_def fresh_self_def)
  have tgt: "link_target creation_fails_env s = ''Arctis_7''" for s
    by (simp add: link_target_def creation_fails_env_def example_env_def example_line_split
        example_line_node_name)
  have res: "resolve_ids creation_fails_env s =
      ([Popen ''wpctl status''], s\<lparr>arctis_game_id := None, arctis_chat_id := None\<rparr>)" for s
    by (simp add: resolve_ids_def creation_fails_env_def example_env_def Let_def
        status_texts_differ)
  have st: "create_game_status creation_fails_env = 256"
    "create_chat_status creation_fails_env = 256"
    by (simp_all add: creation_fails_env_def)
  from failed_creation_goes_unnoticed[where E = creation_fails_env] nr
  have p: \<open>provision creation_fails_env =
     ([Popen ''pw-dump 2>&1'',
       Popen ''wpctl status'',
       Popen (''pw-cli list-objects 2>/dev/null | grep -A 20 'type PipeWire:Interface:Node'' @ [CHR 0x27]),
       System ''pw-cli destroy Arctis_Game 2>/dev/null'',
       System ''pw-cli destroy Arctis_Chat 2>/dev/null'',
       CreateNode ''Arctis_Game'' ''Arctis 7+ Game'',
       CreateNode ''Arctis_Chat'' ''Arctis 7+ Chat'',
       Sleep (1 / 2),
       PwLink ''Arctis_Game:monitor_FL'' ''Arctis_7:playback_FL'',
       PwLink ''Arctis_Game:monitor_FR'' ''Arctis_7:playback_FR'',
       PwLink ''Arctis_Chat:monitor_FL'' ''Arctis_7:playback_FL'',
       PwLink ''Arctis_Chat:monitor_FR'' ''Arctis_7:playback_FR'',
       Popen ''wpctl status''],
      Inr \<lparr>system_default_sink = Some ''speakers'', system_default_sink_id = Some ''45'',
           arctis_game_id = None, arctis_chat_id = None\<rparr>)\<close>
    by (simp add: cap tgt res link_monitors_def)
  have env: "usb_devices creation_fails_env = [arctis_headset]"
    "usb_find_raises creation_fails_env = False"
    "probes creation_fails_env = probes example_env"
    "usb_reads creation_fails_env = [Report [0, 50, 50]]"
    by (simp_all add: creation_fails_env_def example_env_def)
  have run: "snd (main creation_fails_env) = Running"
    by (simp add: main_def init_def env init_usb_example init_VAC_def Let_def wait_example p
        start_modulator_signal_def set_volumes_unfold)
  from p st run show ?thesis by blast
qed

end
